theory Spec2Isabelle
  imports Main "HOL-Library.Log_Nat"
begin

section \<open>The storefront's cart and order submission (Proto-Store/src/App.tsx)\<close>

text \<open>
  The repository is one React component. Its state is five \<^verbatim>\<open>useState\<close> cells, the
  browser's \<^verbatim>\<open>localStorage\<close> and what the component shows or sends (alerts, the
  confirmation dialog, the console, the order request). The handlers \<^verbatim>\<open>saveCart\<close>,
  \<^verbatim>\<open>addToCart\<close>, \<^verbatim>\<open>updateQuantity\<close>, \<^verbatim>\<open>removeFromCart\<close>, the derived value
  \<^verbatim>\<open>total\<close> and \<^verbatim>\<open>handlePayment\<close> are embedded below as functions on a record of that
  state. Every handler is taken as one atomic step on the state it is called in.

  The source file holds two copies of the component. They have the same handlers; the
  later copy (the one embedded) reads the API base URL from the configuration, shows its
  messages in English and names the key of an order item \<^verbatim>\<open>product_id\<close> where the
  earlier copy names it \<^verbatim>\<open>id\<close>.
\<close>

subsection \<open>JavaScript numbers\<close>

text \<open>
  Identifiers, stock counts, quantities and prices are values of the JavaScript type
  \<^verbatim>\<open>number\<close>: IEEE 754 binary64. A finite number is represented by the rational it
  denotes; the sign of zero is not represented, since no operation of the component
  observes it. Arithmetic on finite numbers rounds the exact result to the nearest
  binary64 value, ties to the even significand (\<open>round64\<close>); a result of magnitude
  \<open>2 ^ 1024 - 2 ^ 970\<close> or more is an infinity.
\<close>

datatype number = Num rat | PosInfinity | NegInfinity | NaN

definition pow2 :: "int \<Rightarrow> rat" where
  "pow2 k = (if 0 \<le> k then 2 ^ nat k else 1 / 2 ^ nat (- k))"

definition pow10 :: "int \<Rightarrow> rat" where
  "pow10 k = (if 0 \<le> k then 10 ^ nat k else 1 / 10 ^ nat (- k))"

definition round_half_even :: "rat \<Rightarrow> int" where
  "round_half_even y =
     (let f = \<lfloor>y\<rfloor>; d = y - of_int f
      in if d < 1 / 2 then f
         else if 1 / 2 < d then f + 1
         else if even f then f else f + 1)"

text \<open>
  For \<open>x > 0\<close>, \<open>floor_log2 x\<close> is the \<open>e\<close> with \<open>2 ^ e \<le> x < 2 ^ (e + 1)\<close>: the
  difference of the bit lengths of numerator and denominator, or one less.
\<close>

definition floor_log2 :: "rat \<Rightarrow> int" where
  "floor_log2 x =
     (let d = bitlen (fst (quotient_of x)) - bitlen (snd (quotient_of x))
      in if pow2 d \<le> x then d else d - 1)"

text \<open>
  A positive \<open>x\<close> is rounded to a multiple \<open>m * 2 ^ q\<close> of the unit in its last place:
  \<open>q\<close> leaves 53 significant bits, and never goes below the subnormal exponent
  \<open>- 1074\<close>. The largest finite value is \<open>(2 ^ 53 - 1) * 2 ^ 971\<close>.
\<close>

definition round64_pos :: "rat \<Rightarrow> number" where
  "round64_pos x =
     (let q = max (floor_log2 x - 52) (- 1074);
          m = round_half_even (x / pow2 q)
      in if 971 < q \<or> (q = 971 \<and> 2 ^ 53 \<le> m) then PosInfinity
         else Num (of_int m * pow2 q))"

fun js_neg :: "number \<Rightarrow> number" where
  "js_neg (Num x) = Num (- x)"
| "js_neg PosInfinity = NegInfinity"
| "js_neg NegInfinity = PosInfinity"
| "js_neg NaN = NaN"

definition round64 :: "rat \<Rightarrow> number" where
  "round64 x =
     (if x = 0 then Num 0
      else if x < 0 then js_neg (round64_pos (- x))
      else round64_pos x)"

text \<open>The operators \<^verbatim>\<open>+\<close>, \<^verbatim>\<open>*\<close>, \<^verbatim>\<open><\<close>, \<^verbatim>\<open>>=\<close> and \<^verbatim>\<open>===\<close> on numbers.\<close>

fun js_add :: "number \<Rightarrow> number \<Rightarrow> number" where
  "js_add NaN _ = NaN"
| "js_add _ NaN = NaN"
| "js_add PosInfinity NegInfinity = NaN"
| "js_add NegInfinity PosInfinity = NaN"
| "js_add PosInfinity _ = PosInfinity"
| "js_add _ PosInfinity = PosInfinity"
| "js_add NegInfinity _ = NegInfinity"
| "js_add _ NegInfinity = NegInfinity"
| "js_add (Num a) (Num b) = round64 (a + b)"

fun js_mul :: "number \<Rightarrow> number \<Rightarrow> number" where
  "js_mul NaN _ = NaN"
| "js_mul _ NaN = NaN"
| "js_mul (Num a) (Num b) = round64 (a * b)"
| "js_mul (Num a) PosInfinity =
     (if a = 0 then NaN else if 0 < a then PosInfinity else NegInfinity)"
| "js_mul (Num a) NegInfinity =
     (if a = 0 then NaN else if 0 < a then NegInfinity else PosInfinity)"
| "js_mul PosInfinity (Num b) =
     (if b = 0 then NaN else if 0 < b then PosInfinity else NegInfinity)"
| "js_mul NegInfinity (Num b) =
     (if b = 0 then NaN else if 0 < b then NegInfinity else PosInfinity)"
| "js_mul PosInfinity PosInfinity = PosInfinity"
| "js_mul NegInfinity NegInfinity = PosInfinity"
| "js_mul PosInfinity NegInfinity = NegInfinity"
| "js_mul NegInfinity PosInfinity = NegInfinity"

text \<open>A comparison with \<open>NaN\<close> on either side is false.\<close>

fun js_lt :: "number \<Rightarrow> number \<Rightarrow> bool" where
  "js_lt NaN _ = False"
| "js_lt _ NaN = False"
| "js_lt (Num a) (Num b) = (a < b)"
| "js_lt _ NegInfinity = False"
| "js_lt NegInfinity _ = True"
| "js_lt PosInfinity _ = False"
| "js_lt _ PosInfinity = True"

fun js_ge :: "number \<Rightarrow> number \<Rightarrow> bool" where
  "js_ge NaN _ = False"
| "js_ge _ NaN = False"
| "js_ge a b = (\<not> js_lt a b)"

fun strict_eq :: "number \<Rightarrow> number \<Rightarrow> bool" where
  "strict_eq NaN _ = False"
| "strict_eq _ NaN = False"
| "strict_eq a b = (a = b)"

subsection \<open>The built-in functions the component calls\<close>

text \<open>
  Strings are lists of characters. \<^verbatim>\<open>parseFloat\<close> skips leading white space (the ASCII
  white space and line terminators here) and reads the longest prefix that is a
  \<^verbatim>\<open>StrDecimalLiteral\<close>: an optional sign, then \<^verbatim>\<open>Infinity\<close> or decimal digits with
  an optional fraction and an optional exponent. With no such prefix the result is
  \<open>NaN\<close>. The value is the literal's exact value rounded to binary64.
\<close>

definition is_white_space :: "char \<Rightarrow> bool" where
  "is_white_space c = (of_char c \<in> {9, 10, 11, 12, 13, 32 :: int})"

definition is_digit :: "char \<Rightarrow> bool" where
  "is_digit c = (48 \<le> (of_char c :: int) \<and> (of_char c :: int) \<le> 57)"

definition digit_value :: "char \<Rightarrow> int" where
  "digit_value c = of_char c - 48"

definition digits_value :: "string \<Rightarrow> int" where
  "digits_value ds = foldl (\<lambda>acc c. 10 * acc + digit_value c) 0 ds"

definition signed_integer :: "string \<Rightarrow> int option" where
  "signed_integer s =
     (let body = (case s of c # t \<Rightarrow> if c = CHR ''-'' \<or> c = CHR ''+'' then t else s | [] \<Rightarrow> s);
          ds = takeWhile is_digit body
      in if ds = [] then None
         else if take 1 s = ''-'' then Some (- digits_value ds)
         else Some (digits_value ds))"

definition exponent_part :: "string \<Rightarrow> int" where
  "exponent_part s =
     (case s of
        [] \<Rightarrow> 0
      | c # t \<Rightarrow>
          if c = CHR ''e'' \<or> c = CHR ''E''
          then (case signed_integer t of Some k \<Rightarrow> k | None \<Rightarrow> 0)
          else 0)"

definition str_unsigned_decimal :: "string \<Rightarrow> number" where
  "str_unsigned_decimal s =
     (if take 8 s = ''Infinity'' then PosInfinity
      else
        let ip = takeWhile is_digit s;
            r1 = dropWhile is_digit s;
            fp = (case r1 of [] \<Rightarrow> []
                  | c # t \<Rightarrow> if c = CHR ''.'' then takeWhile is_digit t else []);
            r2 = (case r1 of [] \<Rightarrow> []
                  | c # t \<Rightarrow> if c = CHR ''.'' then dropWhile is_digit t else r1)
        in if ip = [] \<and> fp = [] then NaN
           else round64 (of_int (digits_value (ip @ fp))
                          * pow10 (exponent_part r2 - int (length fp))))"

definition parseFloat :: "string \<Rightarrow> number" where
  "parseFloat s =
     (let t = dropWhile is_white_space s
      in case t of
           [] \<Rightarrow> NaN
         | c # u \<Rightarrow>
             if c = CHR ''-'' then js_neg (str_unsigned_decimal u)
             else if c = CHR ''+'' then str_unsigned_decimal u
             else str_unsigned_decimal t)"

text \<open>
  \<^verbatim>\<open>parseInt\<close> with no radix: white space and a sign are skipped, a prefix \<^verbatim>\<open>0x\<close>
  selects radix 16, and the longest run of digits of the radix is read. An empty run
  gives \<open>NaN\<close>.
\<close>

definition radix_digit :: "int \<Rightarrow> char \<Rightarrow> int option" where
  "radix_digit R c =
     (let n = (of_char c :: int);
          v = (if 48 \<le> n \<and> n \<le> 57 then n - 48
               else if 97 \<le> n \<and> n \<le> 122 then n - 87
               else if 65 \<le> n \<and> n \<le> 90 then n - 55
               else R)
      in if v < R then Some v else None)"

definition parseInt :: "string \<Rightarrow> number" where
  "parseInt s =
     (let t = dropWhile is_white_space s;
          u = (case t of c # r \<Rightarrow> if c = CHR ''-'' \<or> c = CHR ''+'' then r else t | [] \<Rightarrow> t);
          hex = (take 2 u = ''0x'' \<or> take 2 u = ''0X'');
          R = (if hex then 16 else 10);
          z = takeWhile (\<lambda>c. radix_digit R c \<noteq> None) (if hex then drop 2 u else u);
          mathInt = foldl (\<lambda>acc c. R * acc + the (radix_digit R c)) 0 z
      in if z = [] then NaN
         else if take 1 t = ''-'' then round64 (- of_int mathInt)
         else round64 (of_int mathInt))"

text \<open>
  \<^verbatim>\<open>Number.prototype.toFixed\<close>. A number that is not finite prints as its name. A
  finite \<open>x\<close> of magnitude below \<open>10 ^ 21\<close> prints as the integer \<open>n\<close> nearest to
  \<open>x * 10 ^ f\<close> (the larger one on a tie), padded to at least \<open>f + 1\<close> digits, with a
  point before the last \<open>f\<close> digits. From \<open>10 ^ 21\<close> on, \<^verbatim>\<open>toFixed\<close> gives what
  \<^verbatim>\<open>String(x)\<close> gives, which is the exponential form there: the shortest digit string
  \<open>s\<close> of \<open>k\<close> digits with \<open>s * 10 ^ (n - k)\<close> rounding to \<open>x\<close>. The component calls
  \<^verbatim>\<open>toFixed(2)\<close> only; the range error for more than 100 digits is left out.
\<close>

definition digit_char :: "int \<Rightarrow> char" where
  "digit_char d = char_of (48 + d)"

function decimal_digits :: "int \<Rightarrow> string" where
  "decimal_digits n =
     (if n < 10 then [digit_char n]
      else decimal_digits (n div 10) @ [digit_char (n mod 10)])"
  by pat_completeness auto
termination
  by (relation "measure nat") auto

declare decimal_digits.simps [simp del]

definition shortest_at :: "rat \<Rightarrow> nat \<Rightarrow> nat \<Rightarrow> (int \<times> nat) option" where
  "shortest_at x n k =
     (let scale = 10 ^ (n - k);
          lo = \<lfloor>x / scale\<rfloor>;
          hi = lo + 1;
          ok_lo = (round64 (of_int lo * scale) = Num x);
          ok_hi = (round64 (of_int hi * scale) = Num x);
          d_lo = x - of_int lo * scale;
          d_hi = of_int hi * scale - x;
          s = (if ok_lo \<and> ok_hi
               then (if d_lo < d_hi then lo else if d_hi < d_lo then hi
                     else if even lo then lo else hi)
               else if ok_lo then lo else hi)
      in if \<not> ok_lo \<and> \<not> ok_hi then None
         else if s = 10 ^ k then Some (10 ^ (k - 1), n + 1)
         else Some (s, n))"

fun shortest_from :: "nat \<Rightarrow> rat \<Rightarrow> nat \<Rightarrow> nat \<Rightarrow> int \<times> nat" where
  "shortest_from 0 x n k = (\<lfloor>x / 10 ^ (n - k)\<rfloor>, n)"
| "shortest_from (Suc fuel) x n k =
     (case shortest_at x n k of
        Some r \<Rightarrow> r
      | None \<Rightarrow> shortest_from fuel x n (k + 1))"

definition toString_exponential :: "rat \<Rightarrow> string" where
  "toString_exponential x =
     (let (s, n) = shortest_from 17 x (length (decimal_digits \<lfloor>x\<rfloor>)) 1
      in (case decimal_digits s of
            [] \<Rightarrow> []
          | d # ds \<Rightarrow> if ds = [] then [d] else d # ''.'' @ ds)
         @ ''e+'' @ decimal_digits (int n - 1))"

definition toFixed :: "nat \<Rightarrow> number \<Rightarrow> string" where
  "toFixed f x =
     (case x of
        NaN \<Rightarrow> ''NaN''
      | PosInfinity \<Rightarrow> ''Infinity''
      | NegInfinity \<Rightarrow> ''-Infinity''
      | Num r \<Rightarrow>
          let s = (if r < 0 then ''-'' else '''');
              a = \<bar>r\<bar>
          in if 10 ^ 21 \<le> a then s @ toString_exponential a
             else
               let n = \<lfloor>a * 10 ^ f + 1 / 2\<rfloor>;
                   m = decimal_digits n;
                   z = (if length m \<le> f then replicate (f + 1 - length m) CHR ''0'' @ m else m);
                   k = length z
               in if f = 0 then s @ m
                  else s @ take (k - f) z @ ''.'' @ drop (k - f) z)"

text \<open>
  \<^verbatim>\<open>JSON.stringify\<close> is modelled up to the text it prints: the stored value is the JSON
  document as a tree. A number that is not finite is written as \<^verbatim>\<open>null\<close>.
\<close>

datatype json =
    JNull
  | JNumber rat
  | JString string
  | JArray "json list"
  | JObject "(string \<times> json) list"

definition json_number :: "number \<Rightarrow> json" where
  "json_number x = (case x of Num r \<Rightarrow> JNumber r | _ \<Rightarrow> JNull)"

subsection \<open>Data model\<close>

text \<open>
  \<^verbatim>\<open>type Product = { id: number; name: string; price: string; description: string;
  stock: number }\<close> and \<^verbatim>\<open>type CartItem = Product & { quantity: number }\<close>. The field
  \<^verbatim>\<open>id\<close> is written \<open>id'\<close>.
\<close>

record product =
  id' :: number
  name :: string
  price :: string
  description :: string
  stock :: number

record cart_item = product +
  quantity :: number

text \<open>The object \<^verbatim>\<open>{ ...product, quantity: q }\<close>.\<close>

definition line :: "product \<Rightarrow> number \<Rightarrow> cart_item" where
  "line p q = product.extend p (cart_item.fields q)"

text \<open>An object literal handed to \<^verbatim>\<open>axios.post\<close>, with its keys in order.\<close>

datatype js_value =
    JSNumber number
  | JSString string
  | JSArray "js_value list"
  | JSObject "(string \<times> js_value) list"

text \<open>Reading a property of an object; \<open>None\<close> stands for \<^verbatim>\<open>undefined\<close>.\<close>

fun field :: "string \<Rightarrow> js_value \<Rightarrow> js_value option" where
  "field k (JSObject kvs) = map_of kvs k"
| "field k _ = None"

text \<open>
  The promise of \<^verbatim>\<open>axios.post\<close> is fulfilled with a response that has a status, or is
  rejected (a transport failure, or a status the client's \<^verbatim>\<open>validateStatus\<close> refuses:
  by default every status outside 200 to 299); a rejection is what the \<^verbatim>\<open>catch\<close>
  block receives.
\<close>

datatype response = Fulfilled nat | Rejected

text \<open>What the component does to its environment, in the order it does it.\<close>

datatype effect =
    Confirm string
  | Alert string
  | ConsoleError
  | AxiosPost string js_value bool
  | SetItem string json
  | RemoveItem string

record app =
  products :: "product list"
  cart :: "cart_item list"
  showOrderForm :: bool
  customerName :: string
  deliveryAddress :: string
  localStorage :: "string \<rightharpoonup> json"
  effects :: "effect list"

subsection \<open>The handlers\<close>

definition JSON_stringify :: "cart_item list \<Rightarrow> json" where
  "JSON_stringify updatedCart =
     JArray (map (\<lambda>item. JObject
       [(''id'', json_number (id' item)),
        (''name'', JString (name item)),
        (''price'', JString (price item)),
        (''description'', JString (description item)),
        (''stock'', json_number (stock item)),
        (''quantity'', json_number (quantity item))]) updatedCart)"

definition saveCart :: "cart_item list \<Rightarrow> app \<Rightarrow> app" where
  "saveCart updatedCart s =
     s\<lparr>cart := updatedCart,
       localStorage := (localStorage s)(''cart'' \<mapsto> JSON_stringify updatedCart),
       effects := effects s @ [SetItem ''cart'' (JSON_stringify updatedCart)]\<rparr>"

definition addToCart :: "product \<Rightarrow> app \<Rightarrow> app" where
  "addToCart p s =
     (case find (\<lambda>item. strict_eq (id' item) (id' p)) (cart s) of
        Some exist \<Rightarrow>
          saveCart
            (map (\<lambda>item. if strict_eq (id' item) (id' p)
                          then item\<lparr>quantity := js_add (quantity item) (Num 1)\<rparr>
                          else item) (cart s)) s
      | None \<Rightarrow>
          saveCart (cart s @ [line p (Num 1)]) s)"

definition updateQuantity :: "number \<Rightarrow> number \<Rightarrow> app \<Rightarrow> app" where
  "updateQuantity i q s =
     (if js_lt q (Num 1) then s
      else saveCart
             (map (\<lambda>item. if strict_eq (id' item) i then item\<lparr>quantity := q\<rparr> else item)
                (cart s)) s)"

definition removeFromCart :: "number \<Rightarrow> app \<Rightarrow> app" where
  "removeFromCart i s = saveCart (filter (\<lambda>item. \<not> strict_eq (id' item) i) (cart s)) s"

text \<open>
  The derived value \<^verbatim>\<open>total\<close>, written \<open>total'\<close>:
  \<^verbatim>\<open>cart.reduce((sum, item) => sum + parseFloat(item.price) * item.quantity, 0)\<close>
\<close>

definition total' :: "cart_item list \<Rightarrow> number" where
  "total' items =
     foldl (\<lambda>sum item. js_add sum (js_mul (parseFloat (price item)) (quantity item)))
       (Num 0) items"

definition orderData :: "app \<Rightarrow> js_value" where
  "orderData s =
     JSObject
       [(''customerName'', JSString (customerName s)),
        (''deliveryAddress'', JSString (deliveryAddress s)),
        (''items'', JSArray (map (\<lambda>item. JSObject
            [(''product_id'', JSNumber (id' item)),
             (''quantity'', JSNumber (quantity item)),
             (''price'', JSNumber (parseFloat (price item)))]) (cart s))),
        (''total'', JSString (toFixed 2 (total' (cart s))))]"

text \<open>
  The earlier copy of the component builds the same object, with the key \<^verbatim>\<open>id\<close> where
  the later copy has \<^verbatim>\<open>product_id\<close>.
\<close>

definition orderData_earlier :: "app \<Rightarrow> js_value" where
  "orderData_earlier s =
     JSObject
       [(''customerName'', JSString (customerName s)),
        (''deliveryAddress'', JSString (deliveryAddress s)),
        (''items'', JSArray (map (\<lambda>item. JSObject
            [(''id'', JSNumber (id' item)),
             (''quantity'', JSNumber (quantity item)),
             (''price'', JSNumber (parseFloat (price item)))]) (cart s))),
        (''total'', JSString (toFixed 2 (total' (cart s))))]"

definition emit :: "effect \<Rightarrow> app \<Rightarrow> app" where
  "emit e s = s\<lparr>effects := effects s @ [e]\<rparr>"

text \<open>
  \<open>handlePayment\<close> takes what its environment answers: \<open>isPaid\<close> is the answer of
  \<^verbatim>\<open>window.confirm\<close> and \<open>res\<close> the outcome of the request, which is consulted only
  when a request is made. \<open>API_URL\<close> is the configured base URL.
\<close>

definition confirm_message :: "app \<Rightarrow> string" where
  "confirm_message s =
     ''Payment simulation: confirm the payment of '' @ toFixed 2 (total' (cart s)) @ '' PLN''"

definition handlePayment :: "string \<Rightarrow> bool \<Rightarrow> response \<Rightarrow> app \<Rightarrow> app" where
  "handlePayment API_URL isPaid res s =
     (let s1 = emit (Confirm (confirm_message s)) s
      in if \<not> isPaid then emit (Alert ''Payment failed'') s1
         else
           let s2 = emit (AxiosPost (API_URL @ ''/api/order'') (orderData s) True) s1
           in case res of
                Fulfilled status \<Rightarrow>
                  if status = 201
                  then (emit (RemoveItem ''cart'') (emit (Alert ''Order placed successfully!'') s2))
                         \<lparr>cart := [],
                          localStorage := (localStorage s2)(''cart'' := None),
                          showOrderForm := False,
                          customerName := '''',
                          deliveryAddress := ''''\<rparr>
                  else s2
              | Rejected \<Rightarrow> emit (Alert ''Error creating order'') (emit ConsoleError s2))"

text \<open>
  The quantity field of a cart line:
  \<^verbatim>\<open>onChange={(e) => updateQuantity(item.id, parseInt(e.target.value))}\<close>
\<close>

definition quantity_onChange :: "number \<Rightarrow> string \<Rightarrow> app \<Rightarrow> app" where
  "quantity_onChange i v s = updateQuantity i (parseInt v) s"

subsection \<open>The predicates of the properties\<close>

text \<open>
  No two lines of a cart have the same id, where "the same" is what the component's own
  comparison \<^verbatim>\<open>===\<close> says. Every quantity is a number that is at least 1. A number is
  finite and not negative. A string is a decimal numeral with exactly two digits after
  the point.
\<close>

fun no_duplicate_ids :: "cart_item list \<Rightarrow> bool" where
  "no_duplicate_ids [] = True"
| "no_duplicate_ids (x # xs) =
     (list_all (\<lambda>y. \<not> strict_eq (id' x) (id' y)) xs \<and> no_duplicate_ids xs)"

definition quantities_at_least_1 :: "cart_item list \<Rightarrow> bool" where
  "quantities_at_least_1 c = list_all (\<lambda>item. js_ge (quantity item) (Num 1)) c"

fun finite_nonneg :: "number \<Rightarrow> bool" where
  "finite_nonneg (Num r) = (0 \<le> r)"
| "finite_nonneg _ = False"

definition two_decimals :: "string \<Rightarrow> bool" where
  "two_decimals s =
     (let body = (if take 1 s = ''-'' then drop 1 s else s);
          ip = takeWhile is_digit body;
          fp = dropWhile is_digit body
      in ip \<noteq> [] \<and> length fp = 3 \<and> take 1 fp = ''.'' \<and> list_all is_digit (drop 1 fp))"

subsection \<open>Example states\<close>

text \<open>
  Products and a state of the component whose stored snapshot agrees with its cart; the
  concrete instances below are stated on them.
\<close>

definition tea :: product where
  "tea = \<lparr>id' = Num 1, name = ''Tea'', price = ''9.99'', description = ''Green tea'',
           stock = Num 5\<rparr>"

definition mug :: product where
  "mug = \<lparr>id' = Num 2, name = ''Mug'', price = ''4.00'', description = ''Blue mug'',
           stock = Num 7\<rparr>"

definition refund :: product where
  "refund = \<lparr>id' = Num 3, name = ''Refund'', price = ''-1.00'', description = ''Credit note'',
              stock = Num 1\<rparr>"

definition bullion :: product where
  "bullion = \<lparr>id' = Num 4, name = ''Bullion'', price = ''1e21'', description = ''Gold'',
               stock = Num 1\<rparr>"

definition shop :: "cart_item list \<Rightarrow> app" where
  "shop c =
     \<lparr>products = [tea, mug], cart = c, showOrderForm = True, customerName = ''Ada'',
      deliveryAddress = ''1 Main St'', localStorage = [''cart'' \<mapsto> JSON_stringify c],
      effects = []\<rparr>"

section \<open>Properties\<close>

lemmas example_defs = tea_def mug_def line_def shop_def product.extend_def cart_item.fields_def

subsection \<open>Rounding\<close>

text \<open>
  \<open>floor_log2\<close> is the binary exponent: \<open>2 ^ e \<le> x < 2 ^ (e + 1)\<close>. A finite result of
  rounding a positive \<open>x\<close> is a binary64 value, \<open>m * 2 ^ q\<close> with a significand of at most
  53 bits, an exponent \<open>q\<close> from \<open>- 1074\<close> to \<open>971\<close> and a magnitude below \<open>2 ^ 1024\<close>, and
  it is within half a unit of the last place of \<open>x\<close>. An integer of magnitude at most
  \<open>2 ^ 53\<close> is such a value, and rounding leaves it as it is. Rounding keeps a number that
  is not negative not negative, and a number that is at least 1 at least 1.
\<close>

lemma pow2_pos: "0 < pow2 k"
  by (simp add: pow2_def)

lemma pow2_powi: "pow2 k = 2 powi k"
  by (simp add: pow2_def power_int_def power_one_over inverse_eq_divide)

lemma pow2_add: "pow2 (a + b) = pow2 a * pow2 b"
  by (simp add: pow2_powi power_int_add)

lemma pow2_mono: "a \<le> b \<Longrightarrow> pow2 a \<le> pow2 b"
  by (simp add: pow2_powi power_int_increasing)

lemma pow2_strict_mono: "a < b \<Longrightarrow> pow2 a < pow2 b"
  by (simp add: pow2_powi power_int_strict_increasing)

lemma pow2_diff: "pow2 (int a - int b) = 2 ^ a / 2 ^ b"
proof (cases "b \<le> a")
  case True
  then have "pow2 (int a - int b) = 2 ^ (a - b)"
    by (simp add: pow2_def nat_diff_distrib')
  with True show ?thesis by (simp add: power_diff)
next
  case False
  then have "pow2 (int a - int b) = 1 / 2 ^ (b - a)"
    by (simp add: pow2_def nat_diff_distrib')
  with False show ?thesis by (simp add: power_diff)
qed

lemma round_half_even_of_int: "round_half_even (of_int n) = n"
  by (simp add: round_half_even_def)

lemma round_half_even_ge: "of_int k \<le> y \<Longrightarrow> k \<le> round_half_even y"
proof -
  assume "of_int k \<le> y"
  then have "k \<le> \<lfloor>y\<rfloor>" by (simp add: le_floor_iff)
  then show ?thesis by (simp add: round_half_even_def Let_def)
qed

lemma round_half_even_le: "y \<le> of_int k \<Longrightarrow> round_half_even y \<le> k"
proof -
  assume le: "y \<le> of_int k"
  show ?thesis
  proof (cases "y = of_int k")
    case True
    then show ?thesis by (simp add: round_half_even_of_int)
  next
    case False
    with le have "y < of_int k" by simp
    then have "\<lfloor>y\<rfloor> < k" by (simp add: floor_less_iff)
    then show ?thesis by (simp add: round_half_even_def Let_def)
  qed
qed

lemma round_half_even_nonneg: "0 \<le> y \<Longrightarrow> 0 \<le> round_half_even y"
  using round_half_even_ge [of 0 y] by simp

lemma round_half_even_error: "\<bar>of_int (round_half_even y) - y\<bar> \<le> 1 / 2"
proof -
  define d where "d = y - of_int \<lfloor>y\<rfloor>"
  have d: "0 \<le> d" "d < 1" by (simp_all add: d_def) linarith
  have y: "y = of_int \<lfloor>y\<rfloor> + d" by (simp add: d_def)
  have "round_half_even y = (if d < 1 / 2 then \<lfloor>y\<rfloor> else if 1 / 2 < d then \<lfloor>y\<rfloor> + 1
      else if even \<lfloor>y\<rfloor> then \<lfloor>y\<rfloor> else \<lfloor>y\<rfloor> + 1)"
    by (simp add: round_half_even_def Let_def d_def)
  then have "of_int (round_half_even y) - y = - d \<or> of_int (round_half_even y) - y = 1 - d"
    "d < 1 / 2 \<longrightarrow> of_int (round_half_even y) - y = - d"
    "1 / 2 < d \<longrightarrow> of_int (round_half_even y) - y = 1 - d"
    using y by (auto split: if_splits)
  then show ?thesis using d by (cases "d < 1 / 2"; cases "1 / 2 < d") auto
qed

lemma floor_log2_le:
  assumes "0 < x"
  shows "pow2 (floor_log2 x) \<le> x"
proof -
  obtain p d where pd: "quotient_of x = (p, d)" by (cases "quotient_of x")
  then have d: "0 < d" and x: "x = of_int p / of_int d"
    by (simp_all add: quotient_of_denom_pos quotient_of_div)
  with assms have p: "0 < p" by (simp add: zero_less_divide_iff)
  define a where "a = nat (bitlen p - 1)"
  define b where "b = nat (bitlen d)"
  have bp: "2 ^ a \<le> p" and bd: "d < 2 ^ b"
    using bitlen_bounds [OF p] bitlen_bounds [OF d] by (simp_all add: a_def b_def)
  have "1 \<le> bitlen p" using p bitlen_eq_zero_iff [of p] bitlen_nonneg [of p] by linarith
  then have D: "bitlen p - bitlen d - 1 = int a - int b"
    using bitlen_nonneg [of d] by (simp add: a_def b_def)
  have "(2 ^ a :: rat) / 2 ^ b \<le> of_int p / 2 ^ b"
    using bp by (simp add: divide_right_mono of_int_le_numeral_power_cancel_iff)
  also have "\<dots> \<le> of_int p / of_int d"
  proof -
    have "(of_int d :: rat) \<le> 2 ^ b" using bd by (simp add: of_int_le_numeral_power_cancel_iff)
    then show ?thesis using p d by (simp add: frac_le)
  qed
  finally have low: "pow2 (bitlen p - bitlen d - 1) \<le> x"
    by (simp add: D pow2_diff x)
  show ?thesis
    using low by (simp add: floor_log2_def pd Let_def)
qed

lemma floor_log2_less:
  assumes "0 < x"
  shows "x < pow2 (floor_log2 x + 1)"
proof -
  obtain p d where pd: "quotient_of x = (p, d)" by (cases "quotient_of x")
  then have d: "0 < d" and x: "x = of_int p / of_int d"
    by (simp_all add: quotient_of_denom_pos quotient_of_div)
  with assms have p: "0 < p" by (simp add: zero_less_divide_iff)
  define a where "a = nat (bitlen p)"
  define b where "b = nat (bitlen d - 1)"
  have bp: "p < 2 ^ a" and bd: "2 ^ b \<le> d"
    using bitlen_bounds [OF p] bitlen_bounds [OF d] by (simp_all add: a_def b_def)
  have "1 \<le> bitlen d" using d bitlen_eq_zero_iff [of d] bitlen_nonneg [of d] by linarith
  then have D: "bitlen p - bitlen d + 1 = int a - int b"
    using bitlen_nonneg [of p] by (simp add: a_def b_def)
  have "of_int p / of_int d \<le> (of_int p :: rat) / 2 ^ b"
  proof -
    have "(2 ^ b :: rat) \<le> of_int d" using bd by (simp add: numeral_power_le_of_int_cancel_iff)
    then show ?thesis using p by (simp add: frac_le)
  qed
  also have "\<dots> < 2 ^ a / 2 ^ b"
    using bp by (simp add: divide_strict_right_mono of_int_less_numeral_power_cancel_iff)
  finally have up: "x < pow2 (bitlen p - bitlen d + 1)"
    by (simp add: D pow2_diff x)
  show ?thesis
    using up by (simp add: floor_log2_def pd Let_def)
qed

lemma floor_log2_unique:
  assumes "pow2 e \<le> x" "x < pow2 (e + 1)"
  shows "floor_log2 x = e"
proof -
  have x: "0 < x" using assms(1) pow2_pos [of e] by linarith
  have "pow2 (floor_log2 x) < pow2 (e + 1)"
    using floor_log2_le [OF x] assms(2) by linarith
  then have "floor_log2 x < e + 1"
    using pow2_mono [of "e + 1" "floor_log2 x"] by (cases "floor_log2 x < e + 1") auto
  moreover have "pow2 e < pow2 (floor_log2 x + 1)"
    using floor_log2_less [OF x] assms(1) by linarith
  then have "e < floor_log2 x + 1"
    using pow2_mono [of "floor_log2 x + 1" e] by (cases "e < floor_log2 x + 1") auto
  ultimately show ?thesis by linarith
qed

lemma round64_pos_binary64:
  assumes x: "0 < x" and r: "round64_pos x = Num r"
  shows "\<exists>m q. r = of_int m * pow2 q \<and> 0 \<le> m \<and> m \<le> 2 ^ 53
           \<and> - 1074 \<le> q \<and> q \<le> 971 \<and> r < pow2 1024
           \<and> \<bar>r - x\<bar> \<le> pow2 q / 2"
proof -
  define q where "q = max (floor_log2 x - 52) (- 1074)"
  define m where "m = round_half_even (x / pow2 q)"
  from r have ov: "\<not> (971 < q \<or> (q = 971 \<and> 2 ^ 53 \<le> m))" and rm: "r = of_int m * pow2 q"
    unfolding round64_pos_def Let_def q_def [symmetric] m_def [symmetric]
    by (auto split: if_splits)
  have m0: "0 \<le> m"
    unfolding m_def using x pow2_pos [of q] by (intro round_half_even_nonneg) simp
  have "x < pow2 (floor_log2 x + 1)" using x by (rule floor_log2_less)
  also have "floor_log2 x + 1 \<le> q + 53" by (simp add: q_def)
  then have "pow2 (floor_log2 x + 1) \<le> pow2 (q + 53)" by (rule pow2_mono)
  also have "pow2 (q + 53) = pow2 q * 2 ^ 53" by (simp add: pow2_add) (simp add: pow2_def)
  finally have "x / pow2 q \<le> of_int (2 ^ 53)"
    using pow2_pos [of q] by (simp add: pos_divide_le_eq mult.commute)
  then have m53: "m \<le> 2 ^ 53" unfolding m_def by (rule round_half_even_le)
  have "r - x = pow2 q * (of_int m - x / pow2 q)"
    using pow2_pos [of q] by (simp add: rm algebra_simps)
  then have "\<bar>r - x\<bar> = pow2 q * \<bar>of_int m - x / pow2 q\<bar>"
    using pow2_pos [of q] by (simp add: abs_mult)
  also have "\<dots> \<le> pow2 q * (1 / 2)"
    using pow2_pos [of q] round_half_even_error [of "x / pow2 q"]
    unfolding m_def by (intro mult_left_mono) simp_all
  finally have err: "\<bar>r - x\<bar> \<le> pow2 q / 2" by simp
  have big: "r < pow2 1024"
  proof (cases "q = 971")
    case True
    with ov have "m < 2 ^ 53" by simp
    then have "(of_int m :: rat) < 2 ^ 53" by (simp add: of_int_less_numeral_power_cancel_iff)
    then have "of_int m * pow2 971 < 2 ^ 53 * pow2 971"
      using pow2_pos [of 971] by (simp only: mult_less_cancel_right_pos)
    also have "(2 ^ 53 :: rat) * pow2 971 = pow2 (53 + 971)"
      by (simp only: pow2_add) (simp add: pow2_def)
    finally show ?thesis using True by (simp add: rm)
  next
    case False
    with ov have "q + 53 \<le> 1023" by simp
    have "(of_int m :: rat) \<le> 2 ^ 53" using m53 by (simp add: of_int_le_numeral_power_cancel_iff)
    then have "of_int m * pow2 q \<le> 2 ^ 53 * pow2 q"
      using pow2_pos [of q] by (simp only: mult_le_cancel_right_pos)
    also have "(2 ^ 53 :: rat) * pow2 q = pow2 (q + 53)"
      by (simp add: pow2_add) (simp add: pow2_def)
    also have "\<dots> \<le> pow2 1023" using \<open>q + 53 \<le> 1023\<close> by (rule pow2_mono)
    also have "\<dots> < pow2 1024" by (rule pow2_strict_mono) simp
    finally show ?thesis by (simp add: rm)
  qed
  have "- 1074 \<le> q" by (simp add: q_def)
  moreover have "q \<le> 971" using ov by linarith
  ultimately show ?thesis using rm m0 m53 err big by blast
qed

lemma floor_log2_of_int_le:
  assumes "0 < n" "n < 2 ^ 53"
  shows "floor_log2 (of_int n) \<le> 52"
proof -
  have "bitlen n \<le> 53"
    using assms by (simp add: bitlen_le_iff_power)
  moreover have "bitlen 1 = 1"
    by (simp add: bitlen_alt_def)
  ultimately show ?thesis
    by (simp add: floor_log2_def Let_def)
qed

lemma round64_pos_of_int:
  assumes "0 < n" "n < 2 ^ 53"
  shows "round64_pos (of_int n) = Num (of_int n)"
proof -
  define q where "q = max (floor_log2 (of_int n) - 52) (- 1074)"
  define k where "k = nat (- q)"
  have q: "q \<le> 0"
    using floor_log2_of_int_le [OF assms] by (simp add: q_def)
  then have p: "pow2 q = 1 / 2 ^ k"
    by (cases "q = 0") (simp_all add: pow2_def k_def)
  have "of_int n / pow2 q = (of_int (n * 2 ^ k) :: rat)"
    by (simp add: p)
  then have m: "round_half_even (of_int n / pow2 q) = n * 2 ^ k"
    by (simp only: round_half_even_of_int)
  have "round64_pos (of_int n) = Num (of_int (n * 2 ^ k) * pow2 q)"
    using q unfolding round64_pos_def Let_def q_def [symmetric] m by simp
  then show ?thesis by (simp add: p)
qed

lemma round64_2_53: "round64 (2 ^ 53) = Num (2 ^ 53)"
  by code_simp

lemma round64_of_int:
  assumes "\<bar>n\<bar> \<le> 2 ^ 53"
  shows "round64 (of_int n) = Num (of_int n)"
proof -
  consider "n = 0" | "0 < n" "n < 2 ^ 53" | "n = 2 ^ 53" | "n < 0" "- n < 2 ^ 53" | "n = - (2 ^ 53)"
    using assms by linarith
  then show ?thesis
  proof cases
    case 1
    then show ?thesis by (simp add: round64_def)
  next
    case 2
    then show ?thesis by (simp add: round64_def round64_pos_of_int)
  next
    case 3
    then show ?thesis using round64_2_53 by simp
  next
    case 4
    then have "round64_pos (of_int (- n)) = Num (of_int (- n))"
      by (intro round64_pos_of_int) simp_all
    with 4 show ?thesis by (simp add: round64_def)
  next
    case 5
    have "round64 (- (2 ^ 53)) = Num (- (2 ^ 53))" by code_simp
    with 5 show ?thesis by simp
  qed
qed

lemma round64_int_succ:
  assumes "\<bar>n\<bar> < 2 ^ 53"
  shows "round64 (of_int n + 1) = Num (of_int n + 1)"
proof -
  have "\<bar>n + 1\<bar> \<le> 2 ^ 53" using assms by linarith
  then have "round64 (of_int (n + 1)) = Num (of_int (n + 1))" by (rule round64_of_int)
  then show ?thesis by simp
qed

lemma round64_pos_nonneg: "0 < x \<Longrightarrow> js_ge (round64_pos x) (Num 0)"
proof -
  assume x: "0 < x"
  define q where "q = max (floor_log2 x - 52) (- 1074)"
  have "0 \<le> x / pow2 q" using x pow2_pos [of q] by simp
  then have "0 \<le> round_half_even (x / pow2 q)" by (rule round_half_even_nonneg)
  then have "0 \<le> (of_int (round_half_even (x / pow2 q)) :: rat) * pow2 q"
    using pow2_pos [of q] by simp
  then show ?thesis
    unfolding round64_pos_def Let_def q_def [symmetric] by simp
qed

lemma round64_nonneg: "0 \<le> x \<Longrightarrow> js_ge (round64 x) (Num 0)"
  using round64_pos_nonneg [of x] by (cases "x = 0") (simp_all add: round64_def)

lemma round64_pos_ge_1:
  assumes "1 \<le> x"
  shows "js_ge (round64_pos x) (Num 1)"
proof -
  define q where "q = max (floor_log2 x - 52) (- 1074)"
  define m where "m = round_half_even (x / pow2 q)"
  have "1 \<le> (of_int m :: rat) * pow2 q"
  proof (cases "q \<le> 0")
    case True
    define k where "k = nat (- q)"
    from True have p: "pow2 q = 1 / 2 ^ k"
      by (cases "q = 0") (simp_all add: pow2_def k_def)
    have "(of_int (2 ^ k) :: rat) \<le> x / pow2 q"
      using assms by (simp add: p)
    then have "2 ^ k \<le> m"
      unfolding m_def by (rule round_half_even_ge)
    then have "(2 ^ k :: rat) \<le> of_int m"
      by (simp add: numeral_power_le_of_int_cancel_iff)
    then show ?thesis by (simp add: p pos_le_divide_eq)
  next
    case False
    then have q: "q = floor_log2 x - 52" "0 < q" by (simp_all add: q_def)
    define k where "k = nat q"
    from q have p: "pow2 q = 2 ^ k" by (simp add: pow2_def k_def)
    have "floor_log2 x = int (k + 52)" using q by (simp add: k_def)
    then have "pow2 (floor_log2 x) = 2 ^ (k + 52)" by (simp add: pow2_def)
    moreover have "pow2 (floor_log2 x) \<le> x" using assms by (intro floor_log2_le) simp
    ultimately have "(2 ^ k :: rat) * 2 ^ 52 \<le> x" by (simp add: power_add)
    then have "(of_int (2 ^ 52) :: rat) \<le> x / pow2 q"
      by (simp add: p pos_le_divide_eq mult.commute)
    then have "2 ^ 52 \<le> m"
      unfolding m_def by (rule round_half_even_ge)
    then have "1 \<le> m" by simp
    then have "(1 :: rat) \<le> of_int m" by simp
    moreover have "(1 :: rat) \<le> 2 ^ k" by simp
    ultimately have "(1 :: rat) * 1 \<le> of_int m * 2 ^ k" by (intro mult_mono) simp_all
    then show ?thesis by (simp add: p)
  qed
  then show ?thesis
    unfolding round64_pos_def Let_def q_def [symmetric] m_def [symmetric] by simp
qed

lemma js_add_ge_1: "js_ge q (Num 1) \<Longrightarrow> js_ge (js_add q (Num 1)) (Num 1)"
proof (cases q)
  case (Num a)
  assume "js_ge q (Num 1)"
  with Num have "1 \<le> a" by simp
  then have "js_ge (round64_pos (a + 1)) (Num 1)" by (intro round64_pos_ge_1) simp
  with \<open>1 \<le> a\<close> Num show ?thesis by (simp add: round64_def)
qed simp_all

text \<open>The model on values whose binary64 results are well known.\<close>

lemma round64_known_values:
  "round64 (1 / 10) = Num (3602879701896397 / 2 ^ 55)"
  "round64 (3 / 10) = Num (5404319552844595 / 2 ^ 54)"
  "js_add (round64 (1 / 10)) (round64 (2 / 10)) = Num (5404319552844596 / 2 ^ 54)"
  "round64 (2 ^ 53 + 1) = Num (2 ^ 53)"
  "round64 (2 ^ 53 + 3) = Num (2 ^ 53 + 4)"
  "round64 (- (1 / 3)) = Num (- (6004799503160661 / 2 ^ 54))"
  by code_simp+

subsection \<open>The built-in functions on given strings and numbers\<close>

lemma parseFloat_known_values:
  "parseFloat ''9.99'' = round64 (999 / 100)"
  "parseFloat ''  -4.00abc'' = Num (- 4)"
  "parseFloat ''.5e1'' = Num 5"
  "parseFloat ''-Infinity'' = NegInfinity"
  "parseFloat ''abc'' = NaN"
  "parseFloat '''' = NaN"
  by code_simp+

lemma parseInt_known_values:
  "parseInt ''3'' = Num 3"
  "parseInt ''-2'' = Num (- 2)"
  "parseInt ''1.5'' = Num 1"
  "parseInt ''1e3'' = Num 1"
  "parseInt ''0x1F'' = Num 31"
  by code_simp+

lemma toFixed_known_values:
  "toFixed 2 (round64 (1005 / 1000)) = ''1.00''"
  "toFixed 2 (Num (1 / 8)) = ''0.13''"
  "toFixed 0 (Num (5 / 2)) = ''3''"
  "toFixed 2 (Num (- (1 / 1024))) = ''-0.00''"
  "toFixed 2 (Num 0) = ''0.00''"
  "toFixed 2 (Num (10 ^ 21)) = ''1e+21''"
  "toFixed 2 (Num (15 * 10 ^ 20)) = ''1.5e+21''"
  "toFixed 2 NegInfinity = ''-Infinity''"
  by code_simp+

lemma parseInt_empty: "parseInt '''' = NaN"
  by (simp add: parseInt_def)

lemma parseInt_letters: "parseInt ''abc'' = NaN"
  by code_simp

lemma parseInt_2_53: "parseInt ''9007199254740992'' = Num 9007199254740992"
  by code_simp

lemma round64_2_53_succ: "round64 9007199254740993 = Num 9007199254740992"
  by code_simp

lemma parseFloat_tea: "parseFloat ''9.99'' = Num (5623870034678907 / 562949953421312)"
  by code_simp

lemma parseFloat_mug: "parseFloat ''4.00'' = Num 4"
  by code_simp

lemma parseFloat_tea_line: "parseFloat (price (line tea q)) = Num (5623870034678907 / 562949953421312)"
  by (simp add: example_defs parseFloat_tea)

lemma round64_33_97: "round64 (3397 / 100) = Num (1195213119857623 / 35184372088832)"
  by code_simp

lemma scenario_total:
  "total' [line tea (Num 3), line mug (Num 1)] = Num (1195213119857623 / 35184372088832)"
  by code_simp

lemma scenario_toFixed: "toFixed 2 (Num (1195213119857623 / 35184372088832)) = ''33.97''"
  by code_simp

lemma two_decimals_33_97: "two_decimals ''33.97''"
  by code_simp

lemma total_bullion: "toFixed 2 (total' [line bullion (Num 1)]) = ''1e+21''"
  by code_simp

lemma total_NaN: "toFixed 2 (total' [line tea NaN]) = ''NaN''"
  by code_simp

lemma not_two_decimals: "\<not> two_decimals ''1e+21''" "\<not> two_decimals ''NaN''"
  by code_simp+

subsection \<open>What \<open>saveCart\<close> does\<close>

lemma saveCart_cart: "cart (saveCart c s) = c"
  by (simp add: saveCart_def)

lemma saveCart_localStorage:
  "localStorage (saveCart c s) = (localStorage s)(''cart'' \<mapsto> JSON_stringify c)"
  by (simp add: saveCart_def)

lemma saveCart_effects:
  "effects (saveCart c s) = effects s @ [SetItem ''cart'' (JSON_stringify c)]"
  by (simp add: saveCart_def)

lemma saveCart_neq: "saveCart c s \<noteq> s"
proof
  assume "saveCart c s = s"
  then have "effects (saveCart c s) = effects s" by simp
  then show False by (simp add: saveCart_effects)
qed

lemma js_ge_not_lt: "js_ge q b \<Longrightarrow> \<not> js_lt q b"
  by (cases q; cases b) simp_all

subsection \<open>Adding a product\<close>

lemma addToCart_existing:
  assumes "\<exists>item \<in> set (cart s). strict_eq (id' item) (id' p)"
  shows "cart (addToCart p s) =
     map (\<lambda>item. if strict_eq (id' item) (id' p)
                   then item\<lparr>quantity := js_add (quantity item) (Num 1)\<rparr> else item) (cart s)"
proof -
  from assms have "find (\<lambda>item. strict_eq (id' item) (id' p)) (cart s) \<noteq> None"
    by (auto simp: find_None_iff)
  then show ?thesis
    by (auto simp: addToCart_def saveCart_cart)
qed

lemma addToCart_new:
  assumes "\<forall>item \<in> set (cart s). \<not> strict_eq (id' item) (id' p)"
  shows "cart (addToCart p s) = cart s @ [line p (Num 1)]"
proof -
  from assms have "find (\<lambda>item. strict_eq (id' item) (id' p)) (cart s) = None"
    by (simp add: find_None_iff)
  then show ?thesis
    by (simp add: addToCart_def saveCart_cart)
qed

lemma addToCart_saved:
  "localStorage (addToCart p s) ''cart'' = Some (JSON_stringify (cart (addToCart p s)))
   \<and> effects (addToCart p s) = effects s @ [SetItem ''cart'' (JSON_stringify (cart (addToCart p s)))]"
  by (cases "find (\<lambda>item. strict_eq (id' item) (id' p)) (cart s)")
     (simp_all add: addToCart_def saveCart_cart saveCart_localStorage saveCart_effects)

text \<open>
  C2. When a line with the product's id exists, \<open>addToCart\<close> keeps the length and order
  of the cart (no entry is added), leaves every other line as it is and replaces the
  quantity \<open>q\<close> of each line with that id by the binary64 sum \<open>q + 1\<close>; for a quantity
  that is an integer of magnitude below \<open>2 ^ 53\<close> this sum is exactly \<open>q + 1\<close>. When no
  line has the id, the cart is extended at its end by the product with quantity 1. In
  both cases the resulting cart is written to storage under the key \<^verbatim>\<open>cart\<close>.
\<close>

theorem addToCart_spec:
  "((\<exists>item \<in> set (cart s). strict_eq (id' item) (id' p)) \<longrightarrow>
      length (cart (addToCart p s)) = length (cart s)
      \<and> (\<forall>k < length (cart s).
            cart (addToCart p s) ! k =
              (if strict_eq (id' (cart s ! k)) (id' p)
               then (cart s ! k)\<lparr>quantity := js_add (quantity (cart s ! k)) (Num 1)\<rparr>
               else cart s ! k))
      \<and> (\<forall>k n. k < length (cart s) \<and> strict_eq (id' (cart s ! k)) (id' p)
                 \<and> quantity (cart s ! k) = Num (of_int n) \<and> \<bar>n\<bar> < 2 ^ 53
            \<longrightarrow> quantity (cart (addToCart p s) ! k) = Num (of_int (n + 1))))
   \<and> ((\<forall>item \<in> set (cart s). \<not> strict_eq (id' item) (id' p)) \<longrightarrow>
        cart (addToCart p s) = cart s @ [line p (Num 1)])
   \<and> localStorage (addToCart p s) ''cart'' = Some (JSON_stringify (cart (addToCart p s)))
   \<and> effects (addToCart p s)
       = effects s @ [SetItem ''cart'' (JSON_stringify (cart (addToCart p s)))]"
proof -
  have A: "length (cart (addToCart p s)) = length (cart s)
      \<and> (\<forall>k < length (cart s).
            cart (addToCart p s) ! k =
              (if strict_eq (id' (cart s ! k)) (id' p)
               then (cart s ! k)\<lparr>quantity := js_add (quantity (cart s ! k)) (Num 1)\<rparr>
               else cart s ! k))
      \<and> (\<forall>k n. k < length (cart s) \<and> strict_eq (id' (cart s ! k)) (id' p)
                 \<and> quantity (cart s ! k) = Num (of_int n) \<and> \<bar>n\<bar> < 2 ^ 53
            \<longrightarrow> quantity (cart (addToCart p s) ! k) = Num (of_int (n + 1)))"
    if ex: "\<exists>item \<in> set (cart s). strict_eq (id' item) (id' p)"
  proof (intro conjI allI impI)
    note c = addToCart_existing [OF ex]
    show "length (cart (addToCart p s)) = length (cart s)"
      by (simp add: c)
    show "cart (addToCart p s) ! k =
        (if strict_eq (id' (cart s ! k)) (id' p)
         then (cart s ! k)\<lparr>quantity := js_add (quantity (cart s ! k)) (Num 1)\<rparr>
         else cart s ! k)" if "k < length (cart s)" for k
      using that by (simp add: c)
    show "quantity (cart (addToCart p s) ! k) = Num (of_int (n + 1))"
      if "k < length (cart s) \<and> strict_eq (id' (cart s ! k)) (id' p)
          \<and> quantity (cart s ! k) = Num (of_int n) \<and> \<bar>n\<bar> < 2 ^ 53" for k n
      using that by (simp add: c round64_int_succ)
  qed
  have B: "cart (addToCart p s) = cart s @ [line p (Num 1)]"
    if "\<forall>item \<in> set (cart s). \<not> strict_eq (id' item) (id' p)"
    using that by (rule addToCart_new)
  show ?thesis
    using A B addToCart_saved [of p s] by blast
qed

theorem addToCart_spec_witness:
  "quantity (cart (addToCart tea (shop [line tea (Num 3), line mug (Num 1)])) ! 0) = Num 4
   \<and> cart (addToCart tea (shop [line tea (Num 3), line mug (Num 1)])) ! 1 = line mug (Num 1)
   \<and> length (cart (addToCart tea (shop [line tea (Num 3), line mug (Num 1)]))) = 2
   \<and> cart (addToCart mug (shop [line tea (Num 3)])) = [line tea (Num 3), line mug (Num 1)]
   \<and> localStorage (addToCart mug (shop [line tea (Num 3)])) ''cart''
       = Some (JSON_stringify [line tea (Num 3), line mug (Num 1)])"
proof -
  let ?s = "shop [line tea (Num 3), line mug (Num 1)]"
  let ?t = "shop [line tea (Num 3)]"
  have cs: "cart ?s = [line tea (Num 3), line mug (Num 1)]" and ct: "cart ?t = [line tea (Num 3)]"
    by (simp_all add: shop_def)
  have ex: "\<exists>item \<in> set (cart ?s). strict_eq (id' item) (id' tea)"
    by (simp add: cs) (simp add: example_defs)
  have nex: "\<forall>item \<in> set (cart ?t). \<not> strict_eq (id' item) (id' mug)"
    by (simp add: ct) (simp add: example_defs)
  note S = addToCart_spec [of ?s tea]
  note T = addToCart_spec [of ?t mug]
  from S ex have len: "length (cart (addToCart tea ?s)) = length (cart ?s)"
    and nth: "\<forall>k < length (cart ?s).
            cart (addToCart tea ?s) ! k =
              (if strict_eq (id' (cart ?s ! k)) (id' tea)
               then (cart ?s ! k)\<lparr>quantity := js_add (quantity (cart ?s ! k)) (Num 1)\<rparr>
               else cart ?s ! k)"
    and inc: "\<forall>k n. k < length (cart ?s) \<and> strict_eq (id' (cart ?s ! k)) (id' tea)
                 \<and> quantity (cart ?s ! k) = Num (of_int n) \<and> \<bar>n\<bar> < 2 ^ 53
            \<longrightarrow> quantity (cart (addToCart tea ?s) ! k) = Num (of_int (n + 1))"
    by blast+
  have q: "0 < length (cart ?s) \<and> strict_eq (id' (cart ?s ! 0)) (id' tea)
      \<and> quantity (cart ?s ! 0) = Num (of_int 3) \<and> \<bar>3 :: int\<bar> < 2 ^ 53"
    by (simp add: cs) (simp add: example_defs)
  have a: "quantity (cart (addToCart tea ?s) ! 0) = Num 4"
    using inc [rule_format, of 0 3, OF q] by simp
  have "cart (addToCart tea ?s) ! 1 =
      (if strict_eq (id' (cart ?s ! 1)) (id' tea)
       then (cart ?s ! 1)\<lparr>quantity := js_add (quantity (cart ?s ! 1)) (Num 1)\<rparr>
       else cart ?s ! 1)"
    using nth [rule_format, of 1] by (simp add: cs)
  then have b: "cart (addToCart tea ?s) ! 1 = line mug (Num 1)"
    by (simp add: cs) (simp add: example_defs)
  have c: "length (cart (addToCart tea ?s)) = 2"
    using len by (simp add: cs)
  have d: "cart (addToCart mug ?t) = [line tea (Num 3), line mug (Num 1)]"
    using T nex by (simp add: ct)
  have e: "localStorage (addToCart mug ?t) ''cart'' = Some (JSON_stringify (cart (addToCart mug ?t)))"
    using T by blast
  show ?thesis using a b c d e by simp
qed

text \<open>
  Stated for every cart, C2 fails: \<open>9007199254740992\<close>, which is \<open>2 ^ 53\<close>, can be
  typed into the quantity field and passes the guard of \<open>updateQuantity\<close>; adding the
  product again leaves that quantity as it is, since \<open>2 ^ 53 + 1\<close> is not a binary64
  value and rounds back to \<open>2 ^ 53\<close>. (A quantity that is \<open>NaN\<close> stays \<open>NaN\<close> as well.)
\<close>

theorem addToCart_increment_counterexample:
  "cart (quantity_onChange (Num 1) ''9007199254740992'' (shop [line tea (Num 1)]))
     = [line tea (Num 9007199254740992)]
   \<and> quantity (cart (shop [line tea (Num 9007199254740992)]) ! 0) = Num 9007199254740992
   \<and> quantity (cart (addToCart tea (shop [line tea (Num 9007199254740992)])) ! 0)
       = Num 9007199254740992
   \<and> quantity (cart (addToCart tea (shop [line tea (Num 9007199254740992)])) ! 0)
       \<noteq> Num (9007199254740992 + 1)
   \<and> quantity (cart (addToCart tea (shop [line tea NaN])) ! 0) = NaN"
  by (simp add: quantity_onChange_def parseInt_2_53 updateQuantity_def addToCart_def
      saveCart_cart round64_2_53_succ example_defs)

subsection \<open>Changing and removing a cart line\<close>

text \<open>
  C3. \<open>updateQuantity i q\<close> with \<open>q < 1\<close> returns the state as it is: the cart, the
  storage and the trace of effects are untouched, so nothing is written. With \<open>q \<ge> 1\<close>
  the cart keeps its length and order, every line whose id is \<open>i\<close> gets quantity \<open>q\<close>
  and every other line is unchanged; when no line has id \<open>i\<close> the cart is unchanged.
\<close>

theorem updateQuantity_spec:
  "(js_lt q (Num 1) \<longrightarrow> updateQuantity i q s = s)
   \<and> (js_ge q (Num 1) \<longrightarrow>
        length (cart (updateQuantity i q s)) = length (cart s)
        \<and> (\<forall>k < length (cart s).
              cart (updateQuantity i q s) ! k =
                (if strict_eq (id' (cart s ! k)) i
                 then (cart s ! k)\<lparr>quantity := q\<rparr> else cart s ! k)))
   \<and> (js_ge q (Num 1) \<and> (\<forall>item \<in> set (cart s). \<not> strict_eq (id' item) i)
        \<longrightarrow> cart (updateQuantity i q s) = cart s)"
proof (intro conjI impI)
  assume "js_lt q (Num 1)"
  then show "updateQuantity i q s = s" by (simp add: updateQuantity_def)
next
  assume "js_ge q (Num 1)"
  then have c: "cart (updateQuantity i q s) =
      map (\<lambda>item. if strict_eq (id' item) i then item\<lparr>quantity := q\<rparr> else item) (cart s)"
    by (simp add: updateQuantity_def js_ge_not_lt saveCart_cart)
  show "length (cart (updateQuantity i q s)) = length (cart s)"
    by (simp add: c)
  show "\<forall>k < length (cart s).
      cart (updateQuantity i q s) ! k =
        (if strict_eq (id' (cart s ! k)) i then (cart s ! k)\<lparr>quantity := q\<rparr> else cart s ! k)"
    by (simp add: c)
next
  assume a: "js_ge q (Num 1) \<and> (\<forall>item \<in> set (cart s). \<not> strict_eq (id' item) i)"
  then have "cart (updateQuantity i q s) =
      map (\<lambda>item. if strict_eq (id' item) i then item\<lparr>quantity := q\<rparr> else item) (cart s)"
    by (simp add: updateQuantity_def js_ge_not_lt saveCart_cart)
  also have "\<dots> = map (\<lambda>item. item) (cart s)"
    using a by (intro map_cong) auto
  finally show "cart (updateQuantity i q s) = cart s" by simp
qed

theorem updateQuantity_spec_witness:
  "updateQuantity (Num 1) (Num 0) (shop [line tea (Num 3), line mug (Num 1)])
     = shop [line tea (Num 3), line mug (Num 1)]
   \<and> cart (updateQuantity (Num 1) (Num 5) (shop [line tea (Num 3), line mug (Num 1)])) ! 0
       = line tea (Num 5)
   \<and> cart (updateQuantity (Num 1) (Num 5) (shop [line tea (Num 3), line mug (Num 1)])) ! 1
       = line mug (Num 1)
   \<and> cart (updateQuantity (Num 7) (Num 5) (shop [line tea (Num 3), line mug (Num 1)]))
       = [line tea (Num 3), line mug (Num 1)]"
proof -
  let ?s = "shop [line tea (Num 3), line mug (Num 1)]"
  have d: "cart ?s = [line tea (Num 3), line mug (Num 1)]"
    by (simp add: shop_def)
  have a: "updateQuantity (Num 1) (Num 0) ?s = ?s"
    using updateQuantity_spec [of "Num 0" "Num 1" ?s] by simp
  have "\<forall>k < length (cart ?s). cart (updateQuantity (Num 1) (Num 5) ?s) ! k =
          (if strict_eq (id' (cart ?s ! k)) (Num 1)
           then (cart ?s ! k)\<lparr>quantity := Num 5\<rparr> else cart ?s ! k)"
    using updateQuantity_spec [of "Num 5" "Num 1" ?s] by simp
  then have b: "cart (updateQuantity (Num 1) (Num 5) ?s) ! 0 = line tea (Num 5)"
    and c: "cart (updateQuantity (Num 1) (Num 5) ?s) ! 1 = line mug (Num 1)"
    by (simp_all add: d) (simp_all add: example_defs)
  have e: "cart (updateQuantity (Num 7) (Num 5) ?s) = cart ?s"
    using updateQuantity_spec [of "Num 5" "Num 7" ?s] by (simp add: d) (simp add: example_defs)
  show ?thesis using a b c e d by simp
qed

text \<open>
  C9. \<open>removeFromCart i\<close> keeps exactly the lines whose id is not \<open>i\<close>, in their order:
  afterwards no line has id \<open>i\<close>, and a cart without such a line is unchanged. Removing
  the same id a second time changes neither the cart nor the stored snapshot.
\<close>

theorem removeFromCart_idempotent:
  "cart (removeFromCart i s) = filter (\<lambda>item. \<not> strict_eq (id' item) i) (cart s)
   \<and> (\<forall>item \<in> set (cart (removeFromCart i s)). \<not> strict_eq (id' item) i)
   \<and> ((\<forall>item \<in> set (cart s). \<not> strict_eq (id' item) i)
        \<longrightarrow> cart (removeFromCart i s) = cart s)
   \<and> cart (removeFromCart i (removeFromCart i s)) = cart (removeFromCart i s)
   \<and> localStorage (removeFromCart i (removeFromCart i s)) = localStorage (removeFromCart i s)"
  by (simp add: removeFromCart_def saveCart_cart saveCart_localStorage)

theorem removeFromCart_idempotent_witness:
  "cart (removeFromCart (Num 1) (shop [line tea (Num 3), line mug (Num 1)])) = [line mug (Num 1)]
   \<and> cart (removeFromCart (Num 1) (removeFromCart (Num 1) (shop [line tea (Num 3), line mug (Num 1)])))
       = [line mug (Num 1)]
   \<and> cart (removeFromCart (Num 7) (shop [line tea (Num 3), line mug (Num 1)]))
       = [line tea (Num 3), line mug (Num 1)]"
proof -
  let ?s = "shop [line tea (Num 3), line mug (Num 1)]"
  have a: "cart (removeFromCart (Num 1) ?s) = [line mug (Num 1)]"
    using removeFromCart_idempotent [of "Num 1" ?s] by (simp add: example_defs)
  have b: "cart (removeFromCart (Num 1) (removeFromCart (Num 1) ?s)) = cart (removeFromCart (Num 1) ?s)"
    using removeFromCart_idempotent [of "Num 1" ?s] by blast
  have c: "cart (removeFromCart (Num 7) ?s) = cart ?s"
    using removeFromCart_idempotent [of "Num 7" ?s] by (simp add: example_defs)
  have d: "cart ?s = [line tea (Num 3), line mug (Num 1)]"
    by (simp add: shop_def)
  show ?thesis using a b c d by simp
qed

subsection \<open>A quantity that is not a number\<close>

text \<open>
  C10. The guard of \<open>updateQuantity\<close> rejects a call exactly when \<^verbatim>\<open>quantity < 1\<close> is
  true. For \<open>NaN\<close> the comparison is false: the call is not rejected, every line with the
  given id gets the quantity \<open>NaN\<close>, and that cart is written to storage. \<open>NaN\<close> is what
  \<^verbatim>\<open>parseInt\<close> gives for an empty or a non-numeric field, so emptying the quantity field
  of a line is such a call.
\<close>

theorem updateQuantity_NaN:
  "\<not> js_lt NaN (Num 1)
   \<and> (updateQuantity i q s = s \<longleftrightarrow> js_lt q (Num 1))
   \<and> cart (updateQuantity i NaN s) =
       map (\<lambda>item. if strict_eq (id' item) i then item\<lparr>quantity := NaN\<rparr> else item) (cart s)
   \<and> localStorage (updateQuantity i NaN s) ''cart''
       = Some (JSON_stringify (cart (updateQuantity i NaN s)))
   \<and> effects (updateQuantity i NaN s)
       = effects s @ [SetItem ''cart'' (JSON_stringify (cart (updateQuantity i NaN s)))]
   \<and> parseInt '''' = NaN
   \<and> parseInt ''abc'' = NaN
   \<and> quantity_onChange i '''' s = updateQuantity i NaN s"
  by (simp add: updateQuantity_def saveCart_cart saveCart_localStorage saveCart_effects
      saveCart_neq parseInt_empty parseInt_letters quantity_onChange_def)

theorem updateQuantity_NaN_witness:
  "cart (quantity_onChange (Num 1) '''' (shop [line tea (Num 3), line mug (Num 1)]))
     = [line tea NaN, line mug (Num 1)]
   \<and> localStorage (quantity_onChange (Num 1) '''' (shop [line tea (Num 3), line mug (Num 1)])) ''cart''
     = Some (JSON_stringify [line tea NaN, line mug (Num 1)])"
proof -
  let ?s = "shop [line tea (Num 3), line mug (Num 1)]"
  have a: "quantity_onChange (Num 1) '''' ?s = updateQuantity (Num 1) NaN ?s"
    using updateQuantity_NaN [of "Num 1" NaN ?s] by simp
  have b: "cart (updateQuantity (Num 1) NaN ?s) = [line tea NaN, line mug (Num 1)]"
    using updateQuantity_NaN [of "Num 1" NaN ?s] by (simp add: example_defs)
  have c: "localStorage (updateQuantity (Num 1) NaN ?s) ''cart''
       = Some (JSON_stringify (cart (updateQuantity (Num 1) NaN ?s)))"
    using updateQuantity_NaN [of "Num 1" NaN ?s] by blast
  show ?thesis using a b c by simp
qed

text \<open>
  In the stored snapshot the quantity that is \<open>NaN\<close> is written as \<^verbatim>\<open>null\<close>.
\<close>

lemma stored_NaN_quantity:
  "localStorage (quantity_onChange (Num 1) '''' (shop [line tea (Num 3)])) ''cart'' =
     Some (JArray [JObject
       [(''id'', JNumber 1), (''name'', JString ''Tea''), (''price'', JString ''9.99''),
        (''description'', JString ''Green tea''), (''stock'', JNumber 5),
        (''quantity'', JNull)]])"
  by (simp add: quantity_onChange_def parseInt_empty updateQuantity_def saveCart_localStorage
      JSON_stringify_def json_number_def example_defs)

subsection \<open>The invariants of the cart\<close>

text \<open>
  \<open>no_duplicate_ids\<close> says that no two positions of the cart hold the same id; for ids
  that are numbers it is the distinctness of the list of ids.
\<close>

lemma strict_eq_iff: "strict_eq a b \<longleftrightarrow> a = b \<and> a \<noteq> NaN"
  by (cases a; cases b) auto

lemma no_duplicate_ids_distinct:
  "(\<forall>x \<in> set c. id' x \<noteq> NaN) \<Longrightarrow> no_duplicate_ids c = distinct (map id' c)"
  by (induction c) (auto simp: list_all_iff strict_eq_iff)

lemma no_duplicate_ids_iff:
  "no_duplicate_ids c \<longleftrightarrow>
     (\<forall>i j. i < j \<and> j < length c \<longrightarrow> \<not> strict_eq (id' (c ! i)) (id' (c ! j)))"
proof (induction c)
  case Nil
  show ?case by simp
next
  case (Cons x xs)
  have "(\<forall>i j. i < j \<and> j < length (x # xs) \<longrightarrow> \<not> strict_eq (id' ((x # xs) ! i)) (id' ((x # xs) ! j)))
    \<longleftrightarrow> (\<forall>j < length xs. \<not> strict_eq (id' x) (id' (xs ! j)))
       \<and> (\<forall>i j. i < j \<and> j < length xs \<longrightarrow> \<not> strict_eq (id' (xs ! i)) (id' (xs ! j)))"
    (is "?L \<longleftrightarrow> ?A \<and> ?B")
  proof
    assume L: ?L
    have ?A
    proof (intro allI impI)
      fix j assume "j < length xs"
      then show "\<not> strict_eq (id' x) (id' (xs ! j))"
        using L [rule_format, of 0 "Suc j"] by simp
    qed
    moreover have ?B
    proof (intro allI impI)
      fix i j assume "i < j \<and> j < length xs"
      then show "\<not> strict_eq (id' (xs ! i)) (id' (xs ! j))"
        using L [rule_format, of "Suc i" "Suc j"] by simp
    qed
    ultimately show "?A \<and> ?B" ..
  next
    assume AB: "?A \<and> ?B"
    show ?L
    proof (intro allI impI)
      fix i j assume ij: "i < j \<and> j < length (x # xs)"
      then obtain j' where j: "j = Suc j'" by (cases j) auto
      show "\<not> strict_eq (id' ((x # xs) ! i)) (id' ((x # xs) ! j))"
      proof (cases i)
        case 0
        with ij j AB show ?thesis by simp
      next
        case (Suc i')
        with ij j AB show ?thesis by simp
      qed
    qed
  qed
  moreover have "list_all (\<lambda>y. \<not> strict_eq (id' x) (id' y)) xs
      \<longleftrightarrow> (\<forall>j < length xs. \<not> strict_eq (id' x) (id' (xs ! j)))"
    by (simp add: list_all_length)
  ultimately show ?case using Cons.IH by simp
qed

lemma no_duplicate_ids_map:
  "(\<And>x. id' (f x) = id' x) \<Longrightarrow> no_duplicate_ids (map f xs) = no_duplicate_ids xs"
  by (induction xs) (simp_all add: list_all_iff)

lemma no_duplicate_ids_filter: "no_duplicate_ids xs \<Longrightarrow> no_duplicate_ids (filter P xs)"
  by (induction xs) (auto simp: list_all_iff)

lemma no_duplicate_ids_snoc:
  "no_duplicate_ids (xs @ [y]) =
     (no_duplicate_ids xs \<and> list_all (\<lambda>x. \<not> strict_eq (id' x) (id' y)) xs)"
  by (induction xs) (auto simp: list_all_iff)

lemma id_line: "id' (line p q) = id' p"
  by (cases p) (simp add: line_def product.extend_def cart_item.fields_def)

text \<open>
  C6. A cart in which no two lines have the same id stays such a cart under
  \<open>addToCart\<close>, \<open>updateQuantity\<close> and \<open>removeFromCart\<close>, whatever their arguments.
\<close>

theorem no_duplicate_ids_preserved:
  "no_duplicate_ids (cart s) \<Longrightarrow>
     no_duplicate_ids (cart (addToCart p s))
     \<and> no_duplicate_ids (cart (updateQuantity i q s))
     \<and> no_duplicate_ids (cart (removeFromCart i s))"
proof (intro conjI)
  assume inv: "no_duplicate_ids (cart s)"
  show "no_duplicate_ids (cart (addToCart p s))"
  proof (cases "find (\<lambda>item. strict_eq (id' item) (id' p)) (cart s)")
    case None
    then have "list_all (\<lambda>x. \<not> strict_eq (id' x) (id' p)) (cart s)"
      by (simp add: find_None_iff list_all_iff)
    with inv None show ?thesis
      by (simp add: addToCart_def saveCart_cart no_duplicate_ids_snoc id_line)
  next
    case (Some exist)
    with inv show ?thesis
      by (simp add: addToCart_def saveCart_cart no_duplicate_ids_map)
  qed
  show "no_duplicate_ids (cart (updateQuantity i q s))"
    using inv by (simp add: updateQuantity_def saveCart_cart no_duplicate_ids_map)
  show "no_duplicate_ids (cart (removeFromCart i s))"
    using inv by (simp add: removeFromCart_def saveCart_cart no_duplicate_ids_filter)
qed

theorem no_duplicate_ids_preserved_witness:
  "no_duplicate_ids [line tea (Num 3), line mug (Num 1)]
   \<and> no_duplicate_ids (cart (addToCart tea (shop [line tea (Num 3), line mug (Num 1)])))
   \<and> no_duplicate_ids (cart (addToCart mug (shop [line tea (Num 3)])))
   \<and> no_duplicate_ids (cart (updateQuantity (Num 2) (Num 4) (shop [line tea (Num 3), line mug (Num 1)])))
   \<and> no_duplicate_ids (cart (removeFromCart (Num 1) (shop [line tea (Num 3), line mug (Num 1)])))"
proof -
  have a: "no_duplicate_ids [line tea (Num 3), line mug (Num 1)]"
    and b: "no_duplicate_ids [line tea (Num 3)]"
    by (simp_all add: example_defs)
  have c: "cart (shop [line tea (Num 3), line mug (Num 1)]) = [line tea (Num 3), line mug (Num 1)]"
    and d: "cart (shop [line tea (Num 3)]) = [line tea (Num 3)]"
    by (simp_all add: shop_def)
  show ?thesis
    using a
      no_duplicate_ids_preserved [of "shop [line tea (Num 3), line mug (Num 1)]" tea "Num 2" "Num 4"]
      no_duplicate_ids_preserved [of "shop [line tea (Num 3)]" mug "Num 2" "Num 4"]
      no_duplicate_ids_preserved [of "shop [line tea (Num 3), line mug (Num 1)]" tea "Num 1" "Num 4"]
    by (simp add: a b c d)
qed

text \<open>
  C7. The cart \<open>[tea \<times> 3, mug \<times> 1]\<close> has every quantity at least 1. Emptying the
  quantity field of its first line calls \<open>updateQuantity\<close> with \<open>NaN\<close>, which the guard
  \<^verbatim>\<open>quantity < 1\<close> does not reject: the line's quantity becomes \<open>NaN\<close>, and the cart no
  longer has every quantity at least 1.
\<close>

theorem quantity_minimum_broken:
  "quantities_at_least_1 (cart (shop [line tea (Num 3), line mug (Num 1)]))
   \<and> cart (quantity_onChange (Num 1) '''' (shop [line tea (Num 3), line mug (Num 1)]))
       = [line tea NaN, line mug (Num 1)]
   \<and> \<not> quantities_at_least_1
         (cart (quantity_onChange (Num 1) '''' (shop [line tea (Num 3), line mug (Num 1)])))"
  by (simp add: quantity_onChange_def parseInt_empty updateQuantity_def saveCart_cart
      quantities_at_least_1_def example_defs)

text \<open>
  \<open>NaN\<close> is the only argument that breaks the minimum: \<open>addToCart\<close> and
  \<open>removeFromCart\<close> keep every quantity at least 1, and so does \<open>updateQuantity\<close> with
  any quantity that is a number.
\<close>

lemma quantities_at_least_1_kept:
  assumes "quantities_at_least_1 (cart s)"
  shows "quantities_at_least_1 (cart (addToCart p s))
     \<and> quantities_at_least_1 (cart (removeFromCart i s))
     \<and> (q \<noteq> NaN \<longrightarrow> quantities_at_least_1 (cart (updateQuantity i q s)))"
proof (intro conjI impI)
  show "quantities_at_least_1 (cart (addToCart p s))"
    using assms
    by (cases "find (\<lambda>item. strict_eq (id' item) (id' p)) (cart s)")
       (auto simp: addToCart_def saveCart_cart quantities_at_least_1_def list_all_iff
          js_add_ge_1 line_def product.extend_def cart_item.fields_def)
  show "quantities_at_least_1 (cart (removeFromCart i s))"
    using assms
    by (simp add: removeFromCart_def saveCart_cart quantities_at_least_1_def list_all_iff)
  assume "q \<noteq> NaN"
  then have "js_lt q (Num 1) \<or> js_ge q (Num 1)" by (cases q) simp_all
  then show "quantities_at_least_1 (cart (updateQuantity i q s))"
    using assms
    by (auto simp: updateQuantity_def saveCart_cart quantities_at_least_1_def list_all_iff)
qed

subsection \<open>The total\<close>

lemma total_Nil: "total' [] = Num 0"
  by (simp add: total'_def)

lemma total_snoc:
  "total' (items @ [item]) =
     js_add (total' items) (js_mul (parseFloat (price item)) (quantity item))"
  by (simp add: total'_def)

lemma js_add_nonneg:
  "js_ge a (Num 0) \<Longrightarrow> js_ge b (Num 0) \<Longrightarrow> js_ge (js_add a b) (Num 0)"
  by (cases a; cases b) (simp_all add: round64_nonneg)

lemma js_mul_nonneg:
  "finite_nonneg a \<Longrightarrow> finite_nonneg b \<Longrightarrow> js_ge (js_mul a b) (Num 0)"
  by (cases a; cases b) (simp_all add: round64_nonneg)

lemma total_nonneg:
  "(\<forall>item \<in> set items. finite_nonneg (parseFloat (price item)) \<and> finite_nonneg (quantity item))
     \<Longrightarrow> js_ge (total' items) (Num 0)"
proof (induction items rule: rev_induct)
  case Nil
  show ?case by (simp add: total_Nil)
next
  case (snoc item items)
  then have "js_ge (total' items) (Num 0)"
    and "js_ge (js_mul (parseFloat (price item)) (quantity item)) (Num 0)"
    by (simp_all add: js_mul_nonneg)
  then show ?case
    by (simp only: total_snoc js_add_nonneg)
qed

text \<open>
  C4. The total is the sum taken from the left, starting at 0, of
  \<open>parseFloat price * quantity\<close> over the lines, in binary64 arithmetic: the empty cart
  gives 0, and a cart extended by a line gives the total of the cart plus the product of
  the line. It is a number that is at least 0 whenever every price parses to a finite
  number that is not negative and every quantity is such a number. For the cart
  \<open>[tea \<times> 3, mug \<times> 1]\<close> with prices \<^verbatim>\<open>"9.99"\<close> and \<^verbatim>\<open>"4.00"\<close> it is the number
  \<open>33.97\<close>, and the \<^verbatim>\<open>total\<close> of the order is the string \<^verbatim>\<open>"33.97"\<close>.
\<close>

theorem total_spec:
  "total' [] = Num 0
   \<and> total' (items @ [item])
       = js_add (total' items) (js_mul (parseFloat (price item)) (quantity item))
   \<and> ((\<forall>item \<in> set items.
          finite_nonneg (parseFloat (price item)) \<and> finite_nonneg (quantity item))
        \<longrightarrow> js_ge (total' items) (Num 0))
   \<and> total' [line tea (Num 3), line mug (Num 1)] = round64 (3397 / 100)
   \<and> toFixed 2 (total' [line tea (Num 3), line mug (Num 1)]) = ''33.97''
   \<and> field ''total'' (orderData (shop [line tea (Num 3), line mug (Num 1)]))
       = Some (JSString ''33.97'')"
proof -
  have "field ''total'' (orderData (shop [line tea (Num 3), line mug (Num 1)]))
      = Some (JSString (toFixed 2 (total' [line tea (Num 3), line mug (Num 1)])))"
    by (simp add: orderData_def shop_def)
  then show ?thesis
    using total_nonneg [of items]
    by (simp add: total_Nil total_snoc scenario_total scenario_toFixed round64_33_97)
qed

theorem total_spec_witness:
  "js_ge (total' [line tea (Num 3), line mug (Num 1)]) (Num 0)
   \<and> total' [line tea (Num 3), line mug (Num 1)] = Num (1195213119857623 / 35184372088832)"
proof -
  have h: "\<forall>item \<in> set [line tea (Num 3), line mug (Num 1)].
      finite_nonneg (parseFloat (price item)) \<and> finite_nonneg (quantity item)"
    by (simp add: example_defs parseFloat_tea parseFloat_mug)
  note T = total_spec [of "[line tea (Num 3), line mug (Num 1)]" "line mug (Num 1)"]
  from T h have a: "js_ge (total' [line tea (Num 3), line mug (Num 1)]) (Num 0)"
    by blast
  from T have "total' [line tea (Num 3), line mug (Num 1)] = round64 (3397 / 100)"
    by blast
  then have b: "total' [line tea (Num 3), line mug (Num 1)] = Num (1195213119857623 / 35184372088832)"
    by (simp only: round64_33_97)
  show ?thesis using a b by blast
qed

lemma total_refund: "total' [line refund (Num 1)] = Num (- 1)"
  by code_simp

lemma total_tea_NaN: "total' [line tea NaN] = NaN"
  by code_simp

text \<open>
  Stated for every cart, the total of C4 can be negative: nothing in the component checks
  a price, and the price \<^verbatim>\<open>"-1.00"\<close> with quantity 1 gives the total \<open>- 1\<close>. (With a
  quantity that is \<open>NaN\<close> the total is \<open>NaN\<close>, which is not at least 0 either.)
\<close>

theorem total_nonneg_counterexample:
  "total' [line refund (Num 1)] = Num (- 1)
   \<and> js_lt (total' [line refund (Num 1)]) (Num 0)
   \<and> \<not> js_ge (total' [line refund (Num 1)]) (Num 0)
   \<and> \<not> js_ge (total' [line tea NaN]) (Num 0)"
  by (simp add: total_refund total_tea_NaN)

subsection \<open>The order that is sent\<close>

text \<open>
  For a finite number of magnitude below \<open>10 ^ 21\<close>, \<^verbatim>\<open>toFixed(2)\<close> prints the integer
  \<open>n\<close> nearest to a hundred times the magnitude as the digits of \<open>n div 100\<close>, a point,
  and the two digits of \<open>n mod 100\<close>, after a minus sign for a negative number.
\<close>

lemma digit_char_0: "digit_char 0 = CHR ''0''"
  by code_simp

lemma not_digit_point: "\<not> is_digit CHR ''.''"
  by code_simp

lemma not_digit_minus: "\<not> is_digit CHR ''-''"
  by code_simp

lemma is_digit_digit_char: "0 \<le> d \<Longrightarrow> d \<le> 9 \<Longrightarrow> is_digit (digit_char d)"
  by (simp add: is_digit_def digit_char_def)

lemma decimal_digits_small: "n < 10 \<Longrightarrow> decimal_digits n = [digit_char n]"
  by (simp add: decimal_digits.simps)

lemma decimal_digits_step:
  "10 \<le> n \<Longrightarrow> decimal_digits n = decimal_digits (n div 10) @ [digit_char (n mod 10)]"
  by (subst decimal_digits.simps) simp

lemma decimal_digits_nonempty: "decimal_digits n \<noteq> []"
  by (subst decimal_digits.simps) simp

lemma decimal_digits_are_digits: "0 \<le> n \<Longrightarrow> list_all is_digit (decimal_digits n)"
proof (induction n rule: decimal_digits.induct)
  case (1 n)
  show ?case
  proof (cases "n < 10")
    case True
    with 1 show ?thesis by (simp add: decimal_digits_small is_digit_digit_char)
  next
    case False
    with 1 show ?thesis by (simp add: decimal_digits_step is_digit_digit_char)
  qed
qed

lemma div_div_100: "(n::int) div 10 div 10 = n div 100"
  using zdiv_zmult2_eq [of 10 n 10] by simp

lemma mod_100_div: "(n::int) div 10 mod 10 = n mod 100 div 10"
proof -
  have "n mod 100 = 10 * (n div 10 mod 10) + n mod 10"
    using zmod_zmult2_eq [of 10 n 10] by simp
  then show ?thesis by simp
qed

lemma toFixed_2:
  assumes "\<bar>x\<bar> < 10 ^ 21"
  shows "toFixed 2 (Num x) =
     (if x < 0 then ''-'' else [])
     @ decimal_digits (\<lfloor>\<bar>x\<bar> * 100 + 1 / 2\<rfloor> div 100) @ ''.''
     @ [digit_char (\<lfloor>\<bar>x\<bar> * 100 + 1 / 2\<rfloor> mod 100 div 10),
        digit_char (\<lfloor>\<bar>x\<bar> * 100 + 1 / 2\<rfloor> mod 10)]"
proof -
  define n where "n = \<lfloor>\<bar>x\<bar> * 100 + 1 / 2\<rfloor>"
  define m where "m = decimal_digits n"
  define z where "z = (if length m \<le> 2 then replicate (2 + 1 - length m) CHR ''0'' @ m else m)"
  have n0: "0 \<le> n" by (simp add: n_def)
  have t: "toFixed 2 (Num x) =
      (if x < 0 then ''-'' else []) @ take (length z - 2) z @ ''.'' @ drop (length z - 2) z"
    using assms by (simp add: toFixed_def Let_def n_def m_def z_def)
  have "take (length z - 2) z = decimal_digits (n div 100)
      \<and> drop (length z - 2) z = [digit_char (n mod 100 div 10), digit_char (n mod 10)]"
  proof -
    consider "n < 10" | "10 \<le> n" "n < 100" | "100 \<le> n" by linarith
    then show ?thesis
    proof cases
      case 1
      then have "m = [digit_char n]" by (simp add: m_def decimal_digits_small)
      then have "z = [CHR ''0'', CHR ''0'', digit_char n]"
        by (simp add: z_def numeral_2_eq_2)
      with 1 n0 show ?thesis
        by (simp add: decimal_digits_small digit_char_0)
    next
      case 2
      then have "m = [digit_char (n div 10), digit_char (n mod 10)]"
        by (simp add: m_def decimal_digits_step decimal_digits_small)
      then have "z = [CHR ''0'', digit_char (n div 10), digit_char (n mod 10)]"
        by (simp add: z_def)
      with 2 n0 show ?thesis
        by (simp add: decimal_digits_small digit_char_0)
    next
      case 3
      then have "10 \<le> n" "10 \<le> n div 10" by linarith+
      then have "m = decimal_digits (n div 10 div 10)
          @ [digit_char (n div 10 mod 10), digit_char (n mod 10)]"
        by (simp add: m_def decimal_digits_step)
      moreover have "n div 10 div 10 = n div 100" "n div 10 mod 10 = n mod 100 div 10"
        by (rule div_div_100, rule mod_100_div)
      ultimately have m: "m = decimal_digits (n div 100)
          @ [digit_char (n mod 100 div 10), digit_char (n mod 10)]"
        by simp
      have "decimal_digits (n div 100) \<noteq> []" by (rule decimal_digits_nonempty)
      then have "0 < length (decimal_digits (n div 100))" by simp
      then have "z = m" by (simp add: z_def m)
      then show ?thesis by (simp add: m)
    qed
  qed
  then show ?thesis by (simp add: t n_def)
qed

lemma two_decimals_toFixed:
  assumes "\<bar>x\<bar> < 10 ^ 21"
  shows "two_decimals (toFixed 2 (Num x))"
proof -
  define n where "n = \<lfloor>\<bar>x\<bar> * 100 + 1 / 2\<rfloor>"
  define A where "A = decimal_digits (n div 100)"
  define a where "a = digit_char (n mod 100 div 10)"
  define b where "b = digit_char (n mod 10)"
  have n0: "0 \<le> n" by (simp add: n_def)
  then have "0 \<le> n div 100" by simp
  then have A: "list_all is_digit A" "A \<noteq> []"
    by (simp_all add: A_def decimal_digits_are_digits decimal_digits_nonempty)
  have ab: "is_digit a" "is_digit b"
    using n0 by (simp_all add: a_def b_def is_digit_digit_char)
  have body: "takeWhile is_digit (A @ ''.'' @ [a, b]) = A"
    "dropWhile is_digit (A @ ''.'' @ [a, b]) = ''.'' @ [a, b]"
    using A by (simp_all add: list_all_iff not_digit_point)
  obtain c cs where c: "A = c # cs" using A by (cases A) auto
  then have "is_digit c" using A by simp
  then have "c \<noteq> CHR ''-''" using not_digit_minus by auto
  then have pos: "take 1 (A @ ''.'' @ [a, b]) \<noteq> ''-''" by (simp add: c)
  have t: "toFixed 2 (Num x) = (if x < 0 then ''-'' else []) @ A @ ''.'' @ [a, b]"
    using toFixed_2 [OF assms] by (simp add: A_def a_def b_def n_def)
  show ?thesis
  proof (cases "x < 0")
    case True
    then have "toFixed 2 (Num x) = CHR ''-'' # (A @ ''.'' @ [a, b])" by (simp add: t)
    then show ?thesis
      using body A ab by (simp add: two_decimals_def Let_def)
  next
    case False
    then have "toFixed 2 (Num x) = A @ ''.'' @ [a, b]" by (simp add: t)
    then show ?thesis
      using body A ab pos by (simp add: two_decimals_def Let_def)
  qed
qed

lemma field_orderData:
  "field ''customerName'' (orderData s) = Some (JSString (customerName s))"
  "field ''deliveryAddress'' (orderData s) = Some (JSString (deliveryAddress s))"
  "field ''items'' (orderData s) =
     Some (JSArray (map (\<lambda>item. JSObject
            [(''product_id'', JSNumber (id' item)),
             (''quantity'', JSNumber (quantity item)),
             (''price'', JSNumber (parseFloat (price item)))]) (cart s)))"
  "field ''total'' (orderData s) = Some (JSString (toFixed 2 (total' (cart s))))"
  by (simp_all add: orderData_def)

lemma handlePayment_posts:
  "AxiosPost (u @ ''/api/order'') (orderData s) True \<in> set (effects (handlePayment u True r s))"
  by (cases r) (simp_all add: handlePayment_def emit_def Let_def)

text \<open>
  C5. The object passed to \<^verbatim>\<open>axios.post\<close> has, under \<^verbatim>\<open>items\<close>, one entry for each
  line of the cart, in order, with exactly the keys \<^verbatim>\<open>product_id\<close> (the line's id),
  \<^verbatim>\<open>quantity\<close> (its quantity) and \<^verbatim>\<open>price\<close> (\<^verbatim>\<open>parseFloat\<close> of its price); it carries
  the two form fields, and its \<^verbatim>\<open>total\<close> is the string \<^verbatim>\<open>toFixed(2)\<close> gives for the
  total of the cart. Whenever that total is finite and of magnitude below \<open>10 ^ 21\<close>, the
  string is a decimal numeral with exactly two digits after the point: the total rounded
  to the nearest hundredth.
\<close>

theorem orderData_spec:
  "(\<exists>its. field ''items'' (orderData s) = Some (JSArray its)
       \<and> length its = length (cart s)
       \<and> (\<forall>k < length (cart s).
             its ! k = JSObject
               [(''product_id'', JSNumber (id' (cart s ! k))),
                (''quantity'', JSNumber (quantity (cart s ! k))),
                (''price'', JSNumber (parseFloat (price (cart s ! k))))]))
   \<and> field ''customerName'' (orderData s) = Some (JSString (customerName s))
   \<and> field ''deliveryAddress'' (orderData s) = Some (JSString (deliveryAddress s))
   \<and> field ''total'' (orderData s) = Some (JSString (toFixed 2 (total' (cart s))))
   \<and> (\<forall>x. total' (cart s) = Num x \<and> \<bar>x\<bar> < 10 ^ 21 \<longrightarrow>
          two_decimals (toFixed 2 (total' (cart s)))
          \<and> toFixed 2 (total' (cart s)) =
              (if x < 0 then ''-'' else [])
              @ decimal_digits (\<lfloor>\<bar>x\<bar> * 100 + 1 / 2\<rfloor> div 100) @ ''.''
              @ [digit_char (\<lfloor>\<bar>x\<bar> * 100 + 1 / 2\<rfloor> mod 100 div 10),
                 digit_char (\<lfloor>\<bar>x\<bar> * 100 + 1 / 2\<rfloor> mod 10)])
   \<and> AxiosPost (u @ ''/api/order'') (orderData s) True
         \<in> set (effects (handlePayment u True r s))"
proof -
  have items: "\<exists>its. field ''items'' (orderData s) = Some (JSArray its)
       \<and> length its = length (cart s)
       \<and> (\<forall>k < length (cart s).
             its ! k = JSObject
               [(''product_id'', JSNumber (id' (cart s ! k))),
                (''quantity'', JSNumber (quantity (cart s ! k))),
                (''price'', JSNumber (parseFloat (price (cart s ! k))))])"
    by (simp add: field_orderData)
  have fmt: "two_decimals (toFixed 2 (total' (cart s)))
          \<and> toFixed 2 (total' (cart s)) =
              (if x < 0 then ''-'' else [])
              @ decimal_digits (\<lfloor>\<bar>x\<bar> * 100 + 1 / 2\<rfloor> div 100) @ ''.''
              @ [digit_char (\<lfloor>\<bar>x\<bar> * 100 + 1 / 2\<rfloor> mod 100 div 10),
                 digit_char (\<lfloor>\<bar>x\<bar> * 100 + 1 / 2\<rfloor> mod 10)]"
    if "total' (cart s) = Num x \<and> \<bar>x\<bar> < 10 ^ 21" for x
    using that two_decimals_toFixed [of x] toFixed_2 [of x] by simp
  show ?thesis
    using items fmt field_orderData [of s] handlePayment_posts [of u s r] by blast
qed

theorem orderData_spec_witness:
  "field ''items'' (orderData (shop [line tea (Num 3), line mug (Num 1)])) =
     Some (JSArray
       [JSObject [(''product_id'', JSNumber (Num 1)), (''quantity'', JSNumber (Num 3)),
                  (''price'', JSNumber (Num (5623870034678907 / 562949953421312)))],
        JSObject [(''product_id'', JSNumber (Num 2)), (''quantity'', JSNumber (Num 1)),
                  (''price'', JSNumber (Num 4))]])
   \<and> field ''total'' (orderData (shop [line tea (Num 3), line mug (Num 1)]))
       = Some (JSString ''33.97'')
   \<and> two_decimals (toFixed 2 (total' (cart (shop [line tea (Num 3), line mug (Num 1)]))))"
proof -
  let ?s = "shop [line tea (Num 3), line mug (Num 1)]"
  note O = orderData_spec [of ?s "''http://localhost:5000''" Rejected]
  have cs: "cart ?s = [line tea (Num 3), line mug (Num 1)]"
    by (simp add: shop_def)
  have h: "total' (cart ?s) = Num (1195213119857623 / 35184372088832)
      \<and> \<bar>1195213119857623 / 35184372088832 :: rat\<bar> < 10 ^ 21"
    by (simp add: cs scenario_total)
  from O obtain its where its: "field ''items'' (orderData ?s) = Some (JSArray its)"
    "length its = length (cart ?s)"
    "\<forall>k < length (cart ?s).
       its ! k = JSObject
         [(''product_id'', JSNumber (id' (cart ?s ! k))),
          (''quantity'', JSNumber (quantity (cart ?s ! k))),
          (''price'', JSNumber (parseFloat (price (cart ?s ! k))))]"
    by blast
  have "its ! 0 = JSObject [(''product_id'', JSNumber (Num 1)), (''quantity'', JSNumber (Num 3)),
                  (''price'', JSNumber (Num (5623870034678907 / 562949953421312)))]"
    using its(3) [rule_format, of 0] by (simp add: cs) (simp add: example_defs parseFloat_tea)
  moreover have "its ! 1 = JSObject [(''product_id'', JSNumber (Num 2)), (''quantity'', JSNumber (Num 1)),
                  (''price'', JSNumber (Num 4))]"
    using its(3) [rule_format, of 1] by (simp add: cs) (simp add: example_defs parseFloat_mug)
  moreover have "length its = 2" using its(2) by (simp add: cs)
  ultimately have "its =
       [JSObject [(''product_id'', JSNumber (Num 1)), (''quantity'', JSNumber (Num 3)),
                  (''price'', JSNumber (Num (5623870034678907 / 562949953421312)))],
        JSObject [(''product_id'', JSNumber (Num 2)), (''quantity'', JSNumber (Num 1)),
                  (''price'', JSNumber (Num 4))]]"
    by (auto simp: list_eq_iff_nth_eq less_Suc_eq numeral_2_eq_2)
  then have a: "field ''items'' (orderData ?s) =
     Some (JSArray
       [JSObject [(''product_id'', JSNumber (Num 1)), (''quantity'', JSNumber (Num 3)),
                  (''price'', JSNumber (Num (5623870034678907 / 562949953421312)))],
        JSObject [(''product_id'', JSNumber (Num 2)), (''quantity'', JSNumber (Num 1)),
                  (''price'', JSNumber (Num 4))]])"
    using its(1) by simp
  from O have "field ''total'' (orderData ?s) = Some (JSString (toFixed 2 (total' (cart ?s))))"
    by blast
  then have b: "field ''total'' (orderData ?s) = Some (JSString ''33.97'')"
    by (simp add: cs scenario_total scenario_toFixed)
  from O h have c: "two_decimals (toFixed 2 (total' (cart ?s)))"
    by blast
  show ?thesis using a b c by blast
qed

text \<open>
  Stated for every cart, the \<^verbatim>\<open>total\<close> of C5 need not have two decimal places: from
  \<open>10 ^ 21\<close> on \<^verbatim>\<open>toFixed\<close> prints the exponential form, and a total that is not a number
  (as after a quantity field was emptied) prints as \<^verbatim>\<open>NaN\<close>. And in the earlier copy
  of the component the first key of an entry is \<^verbatim>\<open>id\<close>.
\<close>

theorem orderData_total_counterexample:
  "field ''total'' (orderData (shop [line bullion (Num 1)])) = Some (JSString ''1e+21'')
   \<and> \<not> two_decimals ''1e+21''
   \<and> field ''total'' (orderData (shop [line tea NaN])) = Some (JSString ''NaN'')
   \<and> \<not> two_decimals ''NaN''
   \<and> field ''items'' (orderData_earlier (shop [line tea (Num 3)])) =
       Some (JSArray
         [JSObject [(''id'', JSNumber (Num 1)), (''quantity'', JSNumber (Num 3)),
                    (''price'', JSNumber (Num (5623870034678907 / 562949953421312)))]])"
proof -
  have "field ''items'' (orderData_earlier (shop [line tea (Num 3)])) =
       Some (JSArray
         [JSObject [(''id'', JSNumber (id' (line tea (Num 3)))),
                    (''quantity'', JSNumber (quantity (line tea (Num 3)))),
                    (''price'', JSNumber (parseFloat (price (line tea (Num 3)))))]])"
    by (simp add: orderData_earlier_def shop_def)
  then have "field ''items'' (orderData_earlier (shop [line tea (Num 3)])) =
       Some (JSArray
         [JSObject [(''id'', JSNumber (Num 1)), (''quantity'', JSNumber (Num 3)),
                    (''price'', JSNumber (Num (5623870034678907 / 562949953421312)))]])"
    by (simp only: parseFloat_tea_line) (simp add: example_defs)
  moreover have "field ''total'' (orderData (shop [line bullion (Num 1)])) = Some (JSString ''1e+21'')"
    "field ''total'' (orderData (shop [line tea NaN])) = Some (JSString ''NaN'')"
    by (simp_all add: field_orderData) (simp_all add: shop_def total_bullion total_NaN)
  ultimately show ?thesis
    using not_two_decimals by blast
qed

subsection \<open>Placing an order\<close>

text \<open>
  C8. The confirmation comes first. When the user declines, the handler shows the
  confirmation dialog and one alert and does nothing else: no request is made, and the
  cart, the storage and the form fields are as before, whatever the server would have
  answered. When the user accepts, the request follows the confirmation.
\<close>

theorem handlePayment_declined:
  "handlePayment u False r s =
     s\<lparr>effects := effects s @ [Confirm (confirm_message s), Alert ''Payment failed'']\<rparr>
   \<and> cart (handlePayment u False r s) = cart s
   \<and> localStorage (handlePayment u False r s) = localStorage s
   \<and> customerName (handlePayment u False r s) = customerName s
   \<and> deliveryAddress (handlePayment u False r s) = deliveryAddress s
   \<and> (\<exists>rest. effects (handlePayment u True r s) =
         effects s @ Confirm (confirm_message s)
                     # AxiosPost (u @ ''/api/order'') (orderData s) True # rest)"
  by (cases r) (simp_all add: handlePayment_def emit_def Let_def)

theorem handlePayment_declined_witness:
  "effects (handlePayment ''http://localhost:5000'' False (Fulfilled 201)
      (shop [line tea (Num 3), line mug (Num 1)]))
     = [Confirm ''Payment simulation: confirm the payment of 33.97 PLN'', Alert ''Payment failed'']
   \<and> cart (handlePayment ''http://localhost:5000'' False (Fulfilled 201)
      (shop [line tea (Num 3), line mug (Num 1)])) = [line tea (Num 3), line mug (Num 1)]"
proof -
  let ?s = "shop [line tea (Num 3), line mug (Num 1)]"
  have c: "cart ?s = [line tea (Num 3), line mug (Num 1)]" and e: "effects ?s = []"
    by (simp_all add: shop_def)
  have m: "confirm_message ?s = ''Payment simulation: confirm the payment of 33.97 PLN''"
    by (simp add: confirm_message_def c scenario_total scenario_toFixed)
  show ?thesis
    using handlePayment_declined [of "''http://localhost:5000''" "Fulfilled 201" ?s]
    by (simp add: c e m)
qed

text \<open>
  What \<open>handlePayment\<close> does once the user has accepted. On status 201 it alerts the
  success, empties the cart, removes the key \<^verbatim>\<open>cart\<close> from storage, hides the form and
  clears both form fields. On every other outcome the cart, the storage and the form are
  as before. A rejected request is logged and answered with an alert. A request that is
  fulfilled with another status is followed by nothing.
\<close>

lemma handlePayment_created:
  "cart (handlePayment u True (Fulfilled 201) s) = []
   \<and> localStorage (handlePayment u True (Fulfilled 201) s) = (localStorage s)(''cart'' := None)
   \<and> customerName (handlePayment u True (Fulfilled 201) s) = ''''
   \<and> deliveryAddress (handlePayment u True (Fulfilled 201) s) = ''''
   \<and> showOrderForm (handlePayment u True (Fulfilled 201) s) = False
   \<and> effects (handlePayment u True (Fulfilled 201) s) =
       effects s @ [Confirm (confirm_message s),
                    AxiosPost (u @ ''/api/order'') (orderData s) True,
                    Alert ''Order placed successfully!'',
                    RemoveItem ''cart'']"
  by (simp add: handlePayment_def emit_def Let_def)

lemma handlePayment_not_created:
  "res \<noteq> Fulfilled 201 \<Longrightarrow>
     cart (handlePayment u isPaid res s) = cart s
     \<and> localStorage (handlePayment u isPaid res s) = localStorage s
     \<and> customerName (handlePayment u isPaid res s) = customerName s
     \<and> deliveryAddress (handlePayment u isPaid res s) = deliveryAddress s
     \<and> showOrderForm (handlePayment u isPaid res s) = showOrderForm s"
  by (cases res) (simp_all add: handlePayment_def emit_def Let_def)

lemma handlePayment_rejected:
  "effects (handlePayment u True Rejected s) =
     effects s @ [Confirm (confirm_message s),
                  AxiosPost (u @ ''/api/order'') (orderData s) True,
                  ConsoleError,
                  Alert ''Error creating order'']"
  by (simp add: handlePayment_def emit_def Let_def)

lemma handlePayment_fulfilled_other:
  "status \<noteq> 201 \<Longrightarrow>
     handlePayment u True (Fulfilled status) s =
       s\<lparr>effects := effects s @ [Confirm (confirm_message s),
                                  AxiosPost (u @ ''/api/order'') (orderData s) True]\<rparr>"
  by (simp add: handlePayment_def emit_def Let_def)

text \<open>
  C1. A request that is fulfilled with a status other than 201 (200 here) leaves the
  state as it was, and nothing follows the request: no alert, no log entry. The branch
  \<^verbatim>\<open>if (res.status === 201)\<close> has no \<^verbatim>\<open>else\<close>, so this outcome is signalled to nobody.
\<close>

theorem handlePayment_fulfilled_200_silent:
  "handlePayment u True (Fulfilled 200) s =
     s\<lparr>effects := effects s @ [Confirm (confirm_message s),
                                AxiosPost (u @ ''/api/order'') (orderData s) True]\<rparr>"
  by (simp add: handlePayment_def emit_def Let_def)

end
